theory Spec2Isabelle
  imports Complex_Main
begin

section \<open>Python and numpy primitives used by the generators\<close>

text \<open>
  Exceptions of the Python sources are values of the type \<open>error\<close>; a function that may
  raise returns \<open>error + 'a\<close> with \<open>Inl\<close> for the exception.
  Floating-point numbers are read as reals and \<open>complex128\<close> values as \<open>complex\<close>:
  the properties below concern which sample is copied where, which branch runs and which
  draw is consumed, not rounding.
\<close>

datatype error =
    IndexError          \<comment> \<open>\<open>str.format\<close> with a replacement index beyond its arguments\<close>
  | ValueError          \<comment> \<open>numpy: negative dimension, shapes that do not broadcast, bad \<open>p\<close>\<close>
  | TypeError           \<comment> \<open>\<open>len\<close> of a float, subscript of a float\<close>
  | UnboundLocalError   \<comment> \<open>a local read before any branch assigned it\<close>
  | ZeroDivisionError
  | LinAlgError         \<comment> \<open>raised inside the external Riccati solver\<close>
  | MarkovStateException \<comment> \<open>the sources' own \<open>raise Exception\<close> outside the two states\<close>

definition thenE :: "error + 'a \<Rightarrow> ('a \<Rightarrow> error + 'b) \<Rightarrow> error + 'b" where
  "thenE m f = (case m of Inl e \<Rightarrow> Inl e | Inr v \<Rightarrow> f v)"

text \<open>A \<open>for\<close> loop whose body may raise: the first exception ends the loop.\<close>

fun mapE :: "('a \<Rightarrow> error + 'b) \<Rightarrow> 'a list \<Rightarrow> error + 'b list" where
  "mapE f [] = Inr []"
| "mapE f (i # is) =
     (case f i of
        Inl e \<Rightarrow> Inl e
      | Inr w \<Rightarrow> (case mapE f is of Inl e \<Rightarrow> Inl e | Inr ws \<Rightarrow> Inr (w # ws)))"

text \<open>
  Python's \<open>a[s:e]\<close> on a sequence of length \<open>n\<close>: a negative bound counts from the end,
  every bound is clamped into \<open>0..n\<close>, and a slice whose start is not below its stop is
  empty. No slice ever raises.
\<close>

definition py_slice :: "'a list \<Rightarrow> int \<Rightarrow> int \<Rightarrow> 'a list" where
  "py_slice xs s e =
     (let n = int (length xs);
          s' = (if s < 0 then max (s + n) 0 else min s n);
          e' = (if e < 0 then max (e + n) 0 else min e n)
      in take (nat (e' - s')) (drop (nat s') xs))"

text \<open>
  numpy's \<open>target[...] = value\<close> for a one-dimensional target of \<open>n\<close> cells and a
  one-dimensional value: equal lengths copy, a value of length one is broadcast to every
  cell, anything else raises \<open>ValueError\<close>.
\<close>

definition np_assign :: "nat \<Rightarrow> 'a list \<Rightarrow> error + 'a list" where
  "np_assign n vs =
     (if length vs = n then Inr vs
      else if length vs = 1 then Inr (replicate n (hd vs))
      else Inl ValueError)"

section \<open>toeplitzData\<close>

text \<open>
  One window of the three output arrays: \<open>allTrue\<close> is
  \<open>toeplitzAllTrueStates[:, :, i]\<close> (row 0 real parts, row 1 imaginary parts),
  \<open>observation\<close> is \<open>toeplitzObservationStates[:, :, i]\<close> and \<open>finalTrue\<close> is the column
  \<open>toeplitzFinalTrueStates[:, i]\<close> of four numbers.
\<close>

record window =
  allTrue :: "real list \<times> real list"
  observation :: "real list \<times> real list"
  finalTrue :: "real list"

text \<open>
  The body of the loop over \<open>i\<close>. The two files differ in one place: the slice of \<open>x\<close>
  written to \<open>toeplitzFinalTrueStates\<close> is
  \<open>x[0, i+numColumns-1 : i+numColumns+1]\<close> in \<open>gilbertElliot/gilbertElliotDataGen.py\<close>
  (\<open>d = -1\<close>) and \<open>x[0, i+numColumns : i+numColumns+2]\<close> in \<open>gilbertElliotDataGen.py\<close>
  (\<open>d = 0\<close>).
\<close>

definition toeplitz_row ::
  "int \<Rightarrow> complex list \<Rightarrow> complex list \<Rightarrow> int \<Rightarrow> nat \<Rightarrow> error + window" where
  "toeplitz_row d x z numColumns i =
     thenE (np_assign (nat numColumns) (map Re (py_slice z (int i) (int i + numColumns)))) (\<lambda>o0.
     thenE (np_assign (nat numColumns) (map Im (py_slice z (int i) (int i + numColumns)))) (\<lambda>o1.
     thenE (np_assign 2 (map Re (py_slice x (int i + numColumns + d) (int i + numColumns + d + 2)))) (\<lambda>f0.
     thenE (np_assign 2 (map Im (py_slice x (int i + numColumns + d) (int i + numColumns + d + 2)))) (\<lambda>f1.
     thenE (np_assign (nat (numColumns + 1)) (map Re (py_slice x (int i) (int i + numColumns + 1)))) (\<lambda>a0.
     thenE (np_assign (nat (numColumns + 1)) (map Im (py_slice x (int i) (int i + numColumns + 1)))) (\<lambda>a1.
     Inr \<lparr>allTrue = (a0, a1), observation = (o0, o1), finalTrue = f0 @ f1\<rparr>))))))"

text \<open>
  The whole function. \<open>sequenceData[0]\<close> and \<open>sequenceData[1]\<close> are the \<open>1 \<times> n\<close> arrays
  \<open>x\<close> and \<open>z\<close>. The \<open>raise\<close> formats its message with the indices \<open>{1}\<close> and \<open>{2}\<close>
  over two arguments, so what leaves the function there is the \<open>IndexError\<close> of
  \<open>str.format\<close>. \<open>np.empty\<close> refuses a negative dimension. The result is the returned
  triple, each array as the list of its windows.
\<close>

definition toeplitzData_gen ::
  "int \<Rightarrow> complex list \<times> complex list \<Rightarrow> int \<Rightarrow>
     error + ((real list \<times> real list) list \<times> (real list \<times> real list) list \<times> real list list)" where
  "toeplitzData_gen d sequenceData numColumns =
     (let x = fst sequenceData; z = snd sequenceData;
          sequenceLength = int (length x) - 1;
          numRows = sequenceLength - numColumns + 1
      in if numRows < 1 then Inl IndexError
         else if numColumns < 0 then Inl ValueError
         else thenE (mapE (toeplitz_row d x z numColumns) [0 ..< nat numRows]) (\<lambda>ws.
              Inr (map allTrue ws, map observation ws, map finalTrue ws)))"

text \<open>\<open>toeplitzData\<close> of \<open>src/gilbertElliot/gilbertElliotDataGen.py\<close>.\<close>

definition toeplitzData_pkg ::
  "complex list \<times> complex list \<Rightarrow> int \<Rightarrow>
     error + ((real list \<times> real list) list \<times> (real list \<times> real list) list \<times> real list list)" where
  "toeplitzData_pkg = toeplitzData_gen (- 1)"

text \<open>\<open>toeplitzData\<close> of \<open>src/gilbertElliotDataGen.py\<close>.\<close>

definition toeplitzData_root ::
  "complex list \<times> complex list \<Rightarrow> int \<Rightarrow>
     error + ((real list \<times> real list) list \<times> (real list \<times> real list) list \<times> real list list)" where
  "toeplitzData_root = toeplitzData_gen 0"

section \<open>The random number generators\<close>

text \<open>
  The sources draw from the global generators of numpy and torch. Those libraries are
  not part of the repository, so a generator is a parameter: a type \<open>'g\<close> of generator
  states and the operations the sources call on it. Every draw takes the state and
  returns the sample with the next state, so the order of the draws is the order in
  which the state is threaded.
  \<^item> \<open>np_seed s\<close> is \<open>np.random.seed(s)\<close>: the state it installs depends on \<open>s\<close> only;
    numpy refuses a seed outside its range with \<open>ValueError\<close>.
  \<^item> \<open>np_randn\<close> is one standard normal sample.
  \<^item> \<open>np_choice a p\<close> is \<open>np.random.choice(a, replace=True, p=p)\<close>, which may refuse
    \<open>p\<close> with \<open>ValueError\<close>.
\<close>

record 'g np_random =
  np_seed :: "int \<Rightarrow> error + 'g"
  np_randn :: "'g \<Rightarrow> real \<times> 'g"
  np_choice :: "string list \<Rightarrow> real list \<Rightarrow> 'g \<Rightarrow> error + (string \<times> 'g)"

text \<open>\<open>np.random.randn(2,1)\<close>: two samples, the first for row 0.\<close>

definition randn_2_1 :: "'g np_random \<Rightarrow> 'g \<Rightarrow> (real \<times> real) \<times> 'g" where
  "randn_2_1 rng g =
     (let (a, g1) = np_randn rng g; (b, g2) = np_randn rng g1 in ((a, b), g2))"


type_synonym rmat2 = "(real \<times> real) \<times> (real \<times> real)"
type_synonym cvec2 = "complex \<times> complex"

text \<open>\<open>np.matmul\<close> of a real \<open>2 \<times> 2\<close> matrix with a real and with a complex column.\<close>

definition matmul_rr :: "rmat2 \<Rightarrow> real \<times> real \<Rightarrow> real \<times> real" where
  "matmul_rr M u =
     (fst (fst M) * fst u + snd (fst M) * snd u, fst (snd M) * fst u + snd (snd M) * snd u)"

definition matmul_rc :: "rmat2 \<Rightarrow> cvec2 \<Rightarrow> cvec2" where
  "matmul_rc M u =
     (of_real (fst (fst M)) * fst u + of_real (snd (fst M)) * snd u,
      of_real (fst (snd M)) * fst u + of_real (snd (snd M)) * snd u)"

text \<open>\<open>np.matmul(H, x_current)\<close> with \<open>H = [1, 0]\<close>.\<close>

definition matmul_H :: "cvec2 \<Rightarrow> complex" where
  "matmul_H u = 1 * fst u + 0 * snd u"

section \<open>GilEllDataGen\<close>

subsection \<open>Parameters\<close>

text \<open>
  \<open>params\<close> is a positional list whose last two entries may be missing. \<open>params[3]\<close>
  is documented as a list or tuple \<open>[Q_diag, R]\<close>, as a list of one item, or as a bare
  float.
\<close>

datatype noise_param = NoiseSeq "real list" | NoiseFloat real

record params =
  transProbs :: "real \<times> real"                         \<comment> \<open>\<open>params[0]\<close>, \<open>(p, q)\<close>\<close>
  arCoeffs :: "(real \<times> real) \<times> (real \<times> real)"        \<comment> \<open>\<open>params[1]\<close>, good and bad\<close>
  sequenceLength :: int                               \<comment> \<open>\<open>params[2]\<close>\<close>
  noise :: "noise_param option"                       \<comment> \<open>\<open>params[3]\<close>, absent when \<open>len(params) < 4\<close>\<close>
  startState :: "string option"                       \<comment> \<open>\<open>params[4]\<close>, absent when \<open>len(params) < 5\<close>\<close>

text \<open>\<open>len(v)\<close>, \<open>type(v) is float\<close> and \<open>v[k]\<close> on \<open>params[3]\<close>.\<close>

fun py_len :: "noise_param \<Rightarrow> error + nat" where
  "py_len (NoiseSeq xs) = Inr (length xs)"
| "py_len (NoiseFloat f) = Inl TypeError"

fun is_float :: "noise_param \<Rightarrow> bool" where
  "is_float (NoiseSeq xs) = False"
| "is_float (NoiseFloat f) = True"

fun py_item :: "noise_param \<Rightarrow> nat \<Rightarrow> error + real" where
  "py_item (NoiseSeq xs) k = (if k < length xs then Inr (xs ! k) else Inl IndexError)"
| "py_item (NoiseFloat f) k = Inl TypeError"

fun float_value :: "noise_param \<Rightarrow> error + real" where
  "float_value (NoiseFloat f) = Inr f"
| "float_value (NoiseSeq xs) = Inl TypeError"

text \<open>
  The \<open>if\<close>/\<open>elif\<close> chain that sets \<open>Q_diag\<close> and \<open>R\<close>, in the order of the source: the
  test \<open>len(params[3]) == 1\<close> is evaluated before \<open>type(params[3]) is float\<close>.
\<close>

definition noise_setup :: "noise_param option \<Rightarrow> error + (real \<times> real)" where
  "noise_setup n =
     (case n of
        None \<Rightarrow> Inr (1/10, 1/10)
      | Some v \<Rightarrow>
          thenE (py_len v) (\<lambda>l.
            if l = 1 then thenE (py_item v 0) (\<lambda>Q_diag. Inr (Q_diag, 1/10))
            else if is_float v then thenE (float_value v) (\<lambda>Q_diag. Inr (Q_diag, 1/10))
            else thenE (py_item v 0) (\<lambda>Q_diag. thenE (py_item v 1) (\<lambda>R. Inr (Q_diag, R)))))"

text \<open>
  The starting state of the chain. A \<open>params[4]\<close> that is none of the three words leaves
  \<open>MarkovState\<close> unassigned (\<open>None\<close>): the first read of it raises.
\<close>

definition start_state ::
  "'g np_random \<Rightarrow> string option \<Rightarrow> 'g \<Rightarrow> error + (string option \<times> 'g)" where
  "start_state rng s g =
     (case s of
        None \<Rightarrow> Inr (Some ''good'', g)
      | Some w \<Rightarrow>
          if w = ''good'' then Inr (Some ''good'', g)
          else if w = ''bad'' then Inr (Some ''bad'', g)
          else if w = ''random'' then
            thenE (np_choice rng [''good'', ''bad''] [1/2, 1/2] g) (\<lambda>r. Inr (Some (fst r), snd r))
          else Inr (None, g))"

subsection \<open>The Markov chain\<close>

definition transitionStateArray :: "string list list" where
  "transitionStateArray = [[''good'', ''bad''], [''bad'', ''good'']]"

text \<open>\<open>transitionProbabiltyArray\<close> of \<open>src/gilbertElliotDataGen.py\<close>: \<open>((p, 1-p), (q, 1-q))\<close>.\<close>

definition transitionProbabiltyArray_root :: "real \<Rightarrow> real \<Rightarrow> real list list" where
  "transitionProbabiltyArray_root p q = [[p, 1 - p], [q, 1 - q]]"

text \<open>\<open>transitionProbabiltyArray\<close> of \<open>src/gilbertElliot/gilbertElliotDataGen.py\<close>:
  \<open>((1-p, p), (1-q, q))\<close>.\<close>

definition transitionProbabiltyArray_pkg :: "real \<Rightarrow> real \<Rightarrow> real list list" where
  "transitionProbabiltyArray_pkg p q = [[1 - p, p], [1 - q, q]]"

text \<open>
  What \<open>np.random.choice(a, p=p)\<close> is asked to draw from: candidate \<open>a[k]\<close> with
  probability \<open>p[k]\<close>. \<open>prob_of s\<close> is the probability the pairing gives to \<open>s\<close>.
\<close>

definition prob_of :: "string \<Rightarrow> string list \<Rightarrow> real list \<Rightarrow> real" where
  "prob_of s a p = sum_list (map snd (filter (\<lambda>c. fst c = s) (zip a p)))"

text \<open>The transition of the chain for iterations \<open>i > 0\<close>.\<close>

definition markov_transition ::
  "'g np_random \<Rightarrow> real list list \<Rightarrow> string option \<Rightarrow> 'g \<Rightarrow> error + (string option \<times> 'g)" where
  "markov_transition rng transitionProbabiltyArray MarkovState g =
     (case MarkovState of
        None \<Rightarrow> Inl UnboundLocalError
      | Some s \<Rightarrow>
          if s = ''good'' then
            thenE (np_choice rng (transitionStateArray ! 0) (transitionProbabiltyArray ! 0) g)
                  (\<lambda>r. Inr (Some (fst r), snd r))
          else if s = ''bad'' then
            thenE (np_choice rng (transitionStateArray ! 1) (transitionProbabiltyArray ! 1) g)
                  (\<lambda>r. Inr (Some (fst r), snd r))
          else Inl MarkovStateException)"

text \<open>The choice of \<open>F\<close> (and, in the package file, of the column of \<open>channelStates\<close>).\<close>

definition select_F :: "rmat2 \<Rightarrow> rmat2 \<Rightarrow> string option \<Rightarrow> error + rmat2" where
  "select_F goodF badF MarkovState =
     (case MarkovState of
        None \<Rightarrow> Inl UnboundLocalError
      | Some s \<Rightarrow>
          if s = ''good'' then Inr goodF
          else if s = ''bad'' then Inr badF
          else Inl MarkovStateException)"

subsection \<open>The Riccati convergences\<close>

text \<open>
  \<open>scipy.linalg.solve_discrete_are\<close> is external and a parameter \<open>sda\<close>, called with
  \<open>F\<^sup>T\<close>, \<open>H\<^sup>T\<close>, \<open>Q\<close> and \<open>R\<close>; it draws nothing. With \<open>H = [1, 0]\<close> the source computes
  \<open>H P H\<^sup>T + R\<close>, its inverse, the gain \<open>P H\<^sup>T\<close> times that inverse and the entry
  \<open>[0,0]\<close> of \<open>P - K H P\<close>. One row of \<open>riccatiConvergences\<close> is the pair of
  \<open>P[0,0]\<close> and that entry.
\<close>

definition riccati_row ::
  "(rmat2 \<Rightarrow> real \<times> real \<Rightarrow> rmat2 \<Rightarrow> real \<Rightarrow> error + rmat2) \<Rightarrow> rmat2 \<Rightarrow> real \<Rightarrow> real
     \<Rightarrow> error + (real \<times> real)" where
  "riccati_row sda F Q_diag R =
     thenE (sda ((fst (fst F), fst (snd F)), (snd (fst F), snd (snd F))) (1, 0)
                ((Q_diag, 0), (0, 0)) R) (\<lambda>P.
       let kRicConIntermediate = fst (fst P) + R
       in if kRicConIntermediate = 0 then Inl LinAlgError
          else let riccatiKalGain = (fst (fst P) / kRicConIntermediate,
                                     fst (snd P) / kRicConIntermediate)
               in Inr (fst (fst P), fst (fst P) - fst riccatiKalGain * fst (fst P)))"

definition riccatiConvergences ::
  "(rmat2 \<Rightarrow> real \<times> real \<Rightarrow> rmat2 \<Rightarrow> real \<Rightarrow> error + rmat2) \<Rightarrow> rmat2 \<Rightarrow> rmat2 \<Rightarrow> real \<Rightarrow> real
     \<Rightarrow> error + rmat2" where
  "riccatiConvergences sda goodF badF Q_diag R =
     thenE (riccati_row sda goodF Q_diag R) (\<lambda>g.
     thenE (riccati_row sda badF Q_diag R) (\<lambda>b. Inr (g, b)))"

subsection \<open>The main loop\<close>

text \<open>
  The variables the loop carries. The arrays \<open>x\<close> and \<open>z\<close> are written at index \<open>i\<close> in
  iteration \<open>i\<close>, so \<open>x_arr\<close> and \<open>z_arr\<close> are the lists of the values written so far.
\<close>

record 'g gen_state =
  MarkovState :: "string option"
  x_current :: cvec2
  z_current :: complex
  x_arr :: "complex list"
  z_arr :: "complex list"
  channelStates :: "(real \<times> real) list"
  rng_state :: 'g

text \<open>
  The system noise \<open>v\<close> and the observation noise \<open>w\<close> of one time stamp: six normal
  draws, in the order real system noise (2), imaginary system noise (2), real
  observation noise, imaginary observation noise. The square roots are those of
  variances that are not negative.
\<close>

definition draw_noise :: "'g np_random \<Rightarrow> real \<Rightarrow> real \<Rightarrow> 'g \<Rightarrow> (cvec2 \<times> complex) \<times> 'g" where
  "draw_noise rng Q_diag R g =
     (let QChol = ((sqrt Q_diag, 0), (0, 0));
          (n1, g1) = randn_2_1 rng g;
          rSysNoise = (fst (matmul_rr QChol n1) / sqrt 2, snd (matmul_rr QChol n1) / sqrt 2);
          (n2, g2) = randn_2_1 rng g1;
          iSysNoise = (fst (matmul_rr QChol n2) / sqrt 2, snd (matmul_rr QChol n2) / sqrt 2);
          v = (Complex (fst rSysNoise) (fst iSysNoise), Complex (snd rSysNoise) (snd iSysNoise));
          (n3, g3) = np_randn rng g2;
          rObsNoise = sqrt R * n3 / sqrt 2;
          (n4, g4) = np_randn rng g3;
          iObsNoise = sqrt R * n4 / sqrt 2;
          w = Complex rObsNoise iObsNoise
      in ((v, w), g4))"

text \<open>
  The \<open>else\<close> branch of the package file at \<open>i = 0\<close>, "start the channel with a zero
  mean unity variance random sample":
  \<open>randn(2,1)/sqrt(2) + 1j * randn(2,1)/sqrt(2)\<close>, four normal draws.
\<close>

definition start_sample :: "'g np_random \<Rightarrow> 'g \<Rightarrow> cvec2 \<times> 'g" where
  "start_sample rng g =
     (let (a, h1) = randn_2_1 rng g; (b, h2) = randn_2_1 rng h1
      in ((Complex (fst a / sqrt 2) (fst b / sqrt 2),
           Complex (snd a / sqrt 2) (snd b / sqrt 2)), h2))"

text \<open>
  One iteration in \<open>src/gilbertElliotDataGen.py\<close>: at \<open>i = 0\<close> neither \<open>x_current\<close> nor
  \<open>z_current\<close> is assigned, so both keep the zeros they were allocated with.
\<close>

definition gen_step_root ::
  "'g np_random \<Rightarrow> real list list \<Rightarrow> rmat2 \<Rightarrow> rmat2 \<Rightarrow> real \<Rightarrow> real \<Rightarrow> nat \<Rightarrow> 'g gen_state
     \<Rightarrow> error + 'g gen_state" where
  "gen_step_root rng tpa goodF badF Q_diag R i s =
     thenE (if i \<noteq> 0 then markov_transition rng tpa (MarkovState s) (rng_state s)
            else Inr (MarkovState s, rng_state s)) (\<lambda>(ms, g).
     thenE (select_F goodF badF ms) (\<lambda>F.
       let ((v, w), g') = draw_noise rng Q_diag R g;
           xc = (if i \<noteq> 0
                 then (fst (matmul_rc F (x_current s)) + fst v, snd (matmul_rc F (x_current s)) + snd v)
                 else x_current s);
           zc = (if i \<noteq> 0 then matmul_H xc + w else z_current s)
       in Inr (s\<lparr>MarkovState := ms, x_current := xc, z_current := zc,
                 z_arr := z_arr s @ [zc], x_arr := x_arr s @ [fst xc], rng_state := g'\<rparr>)))"

text \<open>
  One iteration in \<open>src/gilbertElliot/gilbertElliotDataGen.py\<close>: at \<open>i = 0\<close> the \<open>else\<close>
  branch draws \<open>x_current\<close> from four more normal samples, and \<open>z_current\<close> is computed
  in every iteration.
\<close>

definition gen_step_pkg ::
  "'g np_random \<Rightarrow> real list list \<Rightarrow> rmat2 \<Rightarrow> rmat2 \<Rightarrow> real \<Rightarrow> real \<Rightarrow> nat \<Rightarrow> 'g gen_state
     \<Rightarrow> error + 'g gen_state" where
  "gen_step_pkg rng tpa goodF badF Q_diag R i s =
     thenE (if i \<noteq> 0 then markov_transition rng tpa (MarkovState s) (rng_state s)
            else Inr (MarkovState s, rng_state s)) (\<lambda>(ms, g).
     thenE (select_F goodF badF ms) (\<lambda>F.
       let ((v, w), g') = draw_noise rng Q_diag R g;
           (xc, g'') =
             (if i \<noteq> 0
              then ((fst (matmul_rc F (x_current s)) + fst v,
                     snd (matmul_rc F (x_current s)) + snd v), g')
              else start_sample rng g');
           zc = matmul_H xc + w
       in Inr (s\<lparr>MarkovState := ms, x_current := xc, z_current := zc,
                 z_arr := z_arr s @ [zc], x_arr := x_arr s @ [fst xc],
                 channelStates := channelStates s @ [fst F], rng_state := g''\<rparr>)))"

text \<open>A \<open>for\<close> loop that threads a state and stops at the first exception.\<close>

fun loopE :: "(nat \<Rightarrow> 's \<Rightarrow> error + 's) \<Rightarrow> nat list \<Rightarrow> 's \<Rightarrow> error + 's" where
  "loopE body [] s = Inr s"
| "loopE body (i # is) s = thenE (body i s) (loopE body is)"

subsection \<open>The two generators\<close>

text \<open>
  Both take the generator \<open>rng\<close>, the Riccati solver \<open>sda\<close>, the parameters, the seed and
  the state \<open>g\<close> of the global generator when the call starts; they return what the
  Python returns together with the state the global generator is left in.
  A seed that is not positive is ignored: the draws then start from \<open>g\<close>.
  \<open>np.empty\<close> refuses the negative length \<open>sequenceLength + 1\<close>. The \<open>debug\<close> flag of the
  package file only writes extra records to a file and is left out.
\<close>

definition GilEllDataGen_root ::
  "'g np_random \<Rightarrow> (rmat2 \<Rightarrow> real \<times> real \<Rightarrow> rmat2 \<Rightarrow> real \<Rightarrow> error + rmat2) \<Rightarrow> params \<Rightarrow> int \<Rightarrow> 'g
     \<Rightarrow> error + ((complex list \<times> complex list \<times> rmat2) \<times> 'g)" where
  "GilEllDataGen_root rng sda ps seed g =
     thenE (if seed > 0 then np_seed rng seed else Inr g) (\<lambda>g0.
       let p = fst (transProbs ps); q = snd (transProbs ps);
           transitionProbabiltyArray = transitionProbabiltyArray_root p q;
           goodCoeffs = fst (arCoeffs ps); badCoeffs = snd (arCoeffs ps)
       in thenE (noise_setup (noise ps)) (\<lambda>(Q_diag, R).
          thenE (start_state rng (startState ps) g0) (\<lambda>(ms, g1).
            if sequenceLength ps + 1 < 0 then Inl ValueError
            else
              let goodF = (goodCoeffs, (1, 0)); badF = (badCoeffs, (1, 0))
              in thenE (riccatiConvergences sda goodF badF Q_diag R) (\<lambda>ric.
                 thenE (loopE (gen_step_root rng transitionProbabiltyArray goodF badF Q_diag R)
                          [0 ..< nat (sequenceLength ps + 1)]
                          \<lparr>MarkovState = ms, x_current = (0, 0), z_current = 0,
                           x_arr = [], z_arr = [], channelStates = [], rng_state = g1\<rparr>) (\<lambda>s.
                 Inr ((x_arr s, z_arr s, ric), rng_state s))))))"

definition GilEllDataGen_pkg ::
  "'g np_random \<Rightarrow> (rmat2 \<Rightarrow> real \<times> real \<Rightarrow> rmat2 \<Rightarrow> real \<Rightarrow> error + rmat2) \<Rightarrow> params \<Rightarrow> int \<Rightarrow> 'g
     \<Rightarrow> error + ((complex list \<times> complex list \<times> rmat2 \<times> (real \<times> real) list) \<times> 'g)" where
  "GilEllDataGen_pkg rng sda ps seed g =
     thenE (if seed > 0 then np_seed rng seed else Inr g) (\<lambda>g0.
       let p = fst (transProbs ps); q = snd (transProbs ps);
           transitionProbabiltyArray = transitionProbabiltyArray_pkg p q;
           goodCoeffs = fst (arCoeffs ps); badCoeffs = snd (arCoeffs ps)
       in thenE (noise_setup (noise ps)) (\<lambda>(Q_diag, R).
          thenE (start_state rng (startState ps) g0) (\<lambda>(ms, g1).
            if sequenceLength ps + 1 < 0 then Inl ValueError
            else
              let goodF = (goodCoeffs, (1, 0)); badF = (badCoeffs, (1, 0))
              in thenE (riccatiConvergences sda goodF badF Q_diag R) (\<lambda>ric.
                 thenE (loopE (gen_step_pkg rng transitionProbabiltyArray goodF badF Q_diag R)
                          [0 ..< nat (sequenceLength ps + 1)]
                          \<lparr>MarkovState = ms, x_current = (0, 0), z_current = 0,
                           x_arr = [], z_arr = [], channelStates = [], rng_state = g1\<rparr>) (\<lambda>s.
                 Inr ((x_arr s, z_arr s, ric, channelStates s), rng_state s))))))"

section \<open>The mismatched generator\<close>

text \<open>
  torch's global generator, a parameter like numpy's: \<open>manual_seed\<close> installs a state
  that depends on the seed only, \<open>torch_randn\<close> is one standard normal sample.
  A computation that may run forever returns an \<open>option\<close>: \<open>None\<close> is "does not return".
\<close>

record 'g torch_random =
  manual_seed :: "int \<Rightarrow> 'g"
  torch_randn :: "'g \<Rightarrow> real \<times> 'g"


subsection \<open>ARCoeffecientGeneration\<close>

text \<open>
  \<open>torch.eig(A, eigenvectors=False).eigenvalues\<close> is a library function. For a real
  \<open>2 \<times> 2\<close> matrix it returns a \<open>2 \<times> 2\<close> tensor with one row per eigenvalue, the real part
  in column 0 and the imaginary part in column 1. The eigenvalues are the roots of
  \<open>\<lambda>\<^sup>2 - tr \<lambda> + det\<close>.
\<close>

definition torch_eig :: "rmat2 \<Rightarrow> (real \<times> real) list" where
  "torch_eig A =
     (let tr = fst (fst A) + snd (snd A);
          det = fst (fst A) * snd (snd A) - snd (fst A) * fst (snd A);
          disc = tr * tr - 4 * det
      in if 0 \<le> disc
         then [((tr + sqrt disc) / 2, 0), ((tr - sqrt disc) / 2, 0)]
         else [(tr / 2, sqrt (- disc) / 2), (tr / 2, - (sqrt (- disc) / 2))])"

text \<open>
  \<open>torch.abs(...) > 1\<close> works entry by entry on that tensor, so each row of
  \<open>eigValsEvaluated\<close> says whether the real part and whether the imaginary part of one
  eigenvalue exceeds 1 in absolute value; \<open>.any()\<close> is true when some entry is.
\<close>

definition eigValsEvaluated :: "rmat2 \<Rightarrow> (bool \<times> bool) list" where
  "eigValsEvaluated A = map (\<lambda>r. (\<bar>fst r\<bar> > 1, \<bar>snd r\<bar> > 1)) (torch_eig A)"

definition any_entry :: "(bool \<times> bool) list \<Rightarrow> bool" where
  "any_entry bs = list_ex (\<lambda>r. fst r \<or> snd r) bs"

text \<open>The magnitudes of the eigenvalues, \<open>sqrt(re\<^sup>2 + im\<^sup>2)\<close>.\<close>

definition eig_magnitudes :: "rmat2 \<Rightarrow> real list" where
  "eig_magnitudes A = map (\<lambda>r. sqrt (fst r * fst r + snd r * snd r)) (torch_eig A)"

text \<open>
  The body of the \<open>while\<close> loop up to the test: two draws, each multiplied by
  \<open>arCoeffecientNoiseVar\<close>, added to the means and stored in row 0 of the matrix.
\<close>

definition coeff_draw ::
  "'g torch_random \<Rightarrow> real \<times> real \<Rightarrow> real \<Rightarrow> rmat2 \<times> 'g \<Rightarrow> rmat2 \<times> 'g" where
  "coeff_draw rng arCoeffMeans arCoeffecientNoiseVar s =
     (let (n0, g1) = torch_randn rng (snd s);
          (n1, g2) = torch_randn rng g1;
          arCoeffNoise = (n0 * arCoeffecientNoiseVar, n1 * arCoeffecientNoiseVar)
      in (((fst arCoeffMeans + fst arCoeffNoise, snd arCoeffMeans + snd arCoeffNoise),
           snd (fst s)), g2))"

text \<open>\<open>while(not goodCoeffs)\<close>: the loop ends in the iteration whose matrix passes the
  test, and in no other way.\<close>

partial_function (option) coeff_loop ::
  "'g torch_random \<Rightarrow> real \<times> real \<Rightarrow> real \<Rightarrow> rmat2 \<times> 'g \<Rightarrow> (rmat2 \<times> 'g) option" where
  "coeff_loop rng arCoeffMeans arCoeffecientNoiseVar s =
     (let s' = coeff_draw rng arCoeffMeans arCoeffecientNoiseVar s
      in if \<not> any_entry (eigValsEvaluated (fst s')) then Some s'
         else coeff_loop rng arCoeffMeans arCoeffecientNoiseVar s')"

text \<open>
  The function: \<open>arCoeffsMatrix\<close> starts as \<open>torch.eye(2)\<close> with row 1 overwritten by
  row 0, that is \<open>[[1, 0], [1, 0]]\<close>. It returns the matrix and the state of the global
  generator.
\<close>

definition ARCoeffecientGeneration ::
  "'g torch_random \<Rightarrow> real \<times> real \<Rightarrow> real \<Rightarrow> int \<Rightarrow> 'g \<Rightarrow> (rmat2 \<times> 'g) option" where
  "ARCoeffecientGeneration rng arCoeffMeans arCoeffecientNoiseVar seed g =
     (let g0 = (if seed > 0 then manual_seed rng seed else g);
          arCoeffsMatrix = ((1, 0), (1, 0))
      in coeff_loop rng arCoeffMeans arCoeffecientNoiseVar (arCoeffsMatrix, g0))"

subsection \<open>ARDatagenMismatch\<close>










section \<open>convertToBatched\<close>

text \<open>
  Arrays are nested lists in index order: \<open>A ! i ! j ! k\<close> is \<open>A[i, j, k]\<close>.
  \<open>dim1\<close> and \<open>dim2\<close> read \<open>shape[1]\<close> and \<open>shape[2]\<close> off such a list.
  \<open>np.empty\<close> leaves the cells unspecified; the model fills them with a value \<open>junk\<close>
  that is a parameter.
\<close>

definition dim1 :: "'a list list \<Rightarrow> nat" where
  "dim1 A = (case A of [] \<Rightarrow> 0 | r # _ \<Rightarrow> length r)"

definition dim2 :: "'a list list list \<Rightarrow> nat" where
  "dim2 A = (case A of [] \<Rightarrow> 0 | r # _ \<Rightarrow> dim1 r)"

definition np_empty3 :: "'a \<Rightarrow> nat \<Rightarrow> nat \<Rightarrow> nat \<Rightarrow> 'a list list list" where
  "np_empty3 junk a b c = replicate a (replicate b (replicate c junk))"

definition np_empty4 :: "'a \<Rightarrow> nat \<Rightarrow> nat \<Rightarrow> nat \<Rightarrow> nat \<Rightarrow> 'a list list list list" where
  "np_empty4 junk a b c d = replicate a (np_empty3 junk b c d)"

text \<open>Assignment of a two- and a three-dimensional value to a target of the given shape,
  with numpy's broadcasting in every axis.\<close>

definition np_assign2 :: "nat \<Rightarrow> nat \<Rightarrow> 'a list list \<Rightarrow> error + 'a list list" where
  "np_assign2 r c V = thenE (mapE (np_assign c) V) (np_assign r)"

definition np_assign3 :: "nat \<Rightarrow> nat \<Rightarrow> nat \<Rightarrow> 'a list list list \<Rightarrow> error + 'a list list list" where
  "np_assign3 r c d V = thenE (mapE (np_assign2 c d) V) (np_assign r)"

text \<open>\<open>T[:, :, i] = V\<close> and \<open>M[:, :, :, i] = W\<close>, once the value has the target's shape.\<close>

definition set_last3 :: "'a list list list \<Rightarrow> nat \<Rightarrow> 'a list list \<Rightarrow> 'a list list list" where
  "set_last3 T i V = map2 (\<lambda>Tb Vb. map2 (\<lambda>Tbc v. Tbc[i := v]) Tb Vb) T V"

definition set_last4 ::
  "'a list list list list \<Rightarrow> nat \<Rightarrow> 'a list list list \<Rightarrow> 'a list list list list" where
  "set_last4 M i W = map2 (\<lambda>Mb Wb. set_last3 Mb i Wb) M W"

text \<open>
  \<open>np.transpose\<close> reverses the axes: of a matrix it is the transpose, of a
  three-dimensional array \<open>A[c, t, n]\<close> it is \<open>B[n, t, c]\<close>. \<open>np.swapaxes(B, 1, 2)\<close>
  transposes every \<open>B[n]\<close>.
\<close>

definition np_transpose3 :: "'a list list list \<Rightarrow> 'a list list list" where
  "np_transpose3 A = transpose (map transpose (transpose A))"

definition swapaxes_1_2 :: "'a list list list \<Rightarrow> 'a list list list" where
  "swapaxes_1_2 B = map transpose B"

text \<open>The body of the loop over \<open>i\<close>.\<close>

definition batch_step ::
  "real list list \<Rightarrow> real list list list \<Rightarrow> nat \<Rightarrow> nat \<Rightarrow> nat
     \<Rightarrow> real list list list \<times> real list list list list
     \<Rightarrow> error + (real list list list \<times> real list list list list)" where
  "batch_step systemDataToBeConverted observedDataToBeFormatted batchSize seqLength i s =
     thenE (np_assign2 batchSize 4
              (transpose (map (\<lambda>row. py_slice row (int (i * batchSize)) (int ((i + 1) * batchSize)))
                            systemDataToBeConverted))) (\<lambda>V.
     thenE (np_assign3 batchSize 2 seqLength
              (swapaxes_1_2 (np_transpose3
                 (map (map (\<lambda>row. py_slice row (int (i * batchSize)) (int ((1 + i) * batchSize))))
                    observedDataToBeFormatted)))) (\<lambda>W.
     Inr (set_last3 (fst s) i V, set_last4 (snd s) i W)))"

text \<open>
  The function. \<open>int(numSequences/batchSize)\<close> divides by zero when \<open>batchSize\<close> is 0; a
  negative \<open>batchSize\<close> is a negative dimension for \<open>np.empty\<close>; for a positive one the
  quotient of the non-negative \<open>numSequences\<close> is rounded down.
\<close>

definition convertToBatched ::
  "real \<Rightarrow> real list list \<Rightarrow> real list list list \<Rightarrow> int
     \<Rightarrow> error + (real list list list \<times> real list list list list)" where
  "convertToBatched junk systemDataToBeConverted observedDataToBeFormatted batchSize =
     (let numSequences = dim2 observedDataToBeFormatted;
          seqLength = dim1 observedDataToBeFormatted
      in if batchSize = 0 then Inl ZeroDivisionError
         else if batchSize < 0 then Inl ValueError
         else
           let seriesLength = numSequences div nat batchSize;
               trueState = np_empty3 junk (nat batchSize) 4 seriesLength;
               measuredState = np_empty4 junk (nat batchSize) 2 seqLength seriesLength
           in loopE (batch_step systemDataToBeConverted observedDataToBeFormatted
                       (nat batchSize) seqLength)
                [0 ..< seriesLength] (trueState, measuredState))"

text \<open>
  The shapes the function is written for: it allocates four rows of true states and two
  rows of observations per sample, so \<open>systemDataToBeConverted\<close> is \<open>4 \<times> N\<close> and
  \<open>observedDataToBeFormatted\<close> is \<open>2 \<times> seqLength \<times> N\<close>.
\<close>

definition well_shaped :: "real list list \<Rightarrow> real list list list \<Rightarrow> nat \<Rightarrow> nat \<Rightarrow> bool" where
  "well_shaped sys obs seqLength N \<longleftrightarrow>
     length sys = 4 \<and> (\<forall>r \<in> set sys. length r = N) \<and>
     length obs = 2 \<and> (\<forall>p \<in> set obs. length p = seqLength \<and> (\<forall>r \<in> set p. length r = N))"

section \<open>A concrete generator for the examples\<close>

text \<open>
  A generator whose state is a counter: the \<open>k\<close>-th normal sample after state \<open>g\<close> is
  the number \<open>g + k\<close>, \<open>choice\<close> returns its first candidate and counts as one draw, and
  seeding with \<open>s\<close> sets the counter to \<open>s\<close>. It stands in for numpy's generator wherever
  a statement is evaluated on a concrete input. \<open>unit_sda\<close> stands in for the Riccati
  solver and returns the identity matrix.
\<close>

definition counter_rng :: "nat np_random" where
  "counter_rng =
     \<lparr>np_seed = (\<lambda>s. if 0 \<le> s \<and> s < 2 ^ 32 then Inr (nat s) else Inl ValueError),
      np_randn = (\<lambda>g. (real g, Suc g)),
      np_choice = (\<lambda>a p g. if a = [] then Inl ValueError else Inr (hd a, Suc g))\<rparr>"

definition unit_sda :: "rmat2 \<Rightarrow> real \<times> real \<Rightarrow> rmat2 \<Rightarrow> real \<Rightarrow> error + rmat2" where
  "unit_sda A B Q R = Inr ((1, 0), (0, 1))"

text \<open>The parameters of the end-to-end example of the specification, with a chosen
  sequence length and fourth entry.\<close>

definition example_params :: "int \<Rightarrow> noise_param option \<Rightarrow> params" where
  "example_params n v =
     \<lparr>transProbs = (1/4, 1/10),
      arCoeffs = ((3/10, 1/10), (1949/1000, - (95/100))),
      sequenceLength = n, noise = v, startState = Some ''good''\<rparr>"

text \<open>A torch generator whose state is the list of the samples it will return; once the
  list is used up it returns zeros. Seeding installs the two samples \<open>0\<close> and \<open>1/10\<close>.\<close>

definition list_torch :: "real list torch_random" where
  "list_torch =
     \<lparr>manual_seed = (\<lambda>s. [0, 1/10]),
      torch_randn = (\<lambda>g. case g of [] \<Rightarrow> (0, []) | a # r \<Rightarrow> (a, r))\<rparr>"

section \<open>Properties of toeplitzData\<close>

subsection \<open>Slices and assignments\<close>

lemma py_slice_in_range:
  assumes "0 \<le> s" "s \<le> e" "e \<le> int (length xs)"
  shows "py_slice xs s e = take (nat (e - s)) (drop (nat s) xs)"
  using assms by (simp add: py_slice_def Let_def min_def)

lemma length_py_slice_in_range:
  assumes "0 \<le> s" "s \<le> e" "e \<le> int (length xs)"
  shows "length (py_slice xs s e) = nat (e - s)"
  using assms by (simp add: py_slice_in_range)

lemma nth_py_slice_in_range:
  assumes "0 \<le> s" "s \<le> e" "e \<le> int (length xs)" "k < nat (e - s)"
  shows "py_slice xs s e ! k = xs ! (nat s + k)"
  using assms by (simp add: py_slice_in_range)

lemma py_slice_pair:
  assumes "0 \<le> s" "s + 2 \<le> int (length xs)"
  shows "py_slice xs s (s + 2) = [xs ! nat s, xs ! (nat s + 1)]"
proof -
  have l: "length (py_slice xs s (s + 2)) = 2"
    using assms by (simp add: length_py_slice_in_range)
  have a: "py_slice xs s (s + 2) ! 0 = xs ! nat s"
    using assms nth_py_slice_in_range [of s "s + 2" xs 0] by simp
  have b: "py_slice xs s (s + 2) ! 1 = xs ! (nat s + 1)"
    using assms nth_py_slice_in_range [of s "s + 2" xs 1] by simp
  show ?thesis
    by (rule nth_equalityI) (use l a b in \<open>auto simp: less_Suc_eq numeral_2_eq_2\<close>)
qed

lemma py_slice_last_clamped:
  assumes "s + 1 = int (length xs)" "0 \<le> s"
  shows "py_slice xs s (s + 2) = [xs ! nat s]"
proof -
  have "py_slice xs s (s + 2) = take 1 (drop (nat s) xs)"
    using assms by (simp add: py_slice_def Let_def min_def)
  also have "\<dots> = [xs ! nat s]"
    using assms by (cases "drop (nat s) xs") (auto simp: nth_via_drop)
  finally show ?thesis .
qed

lemma np_assign_same: "length vs = n \<Longrightarrow> np_assign n vs = Inr vs"
  by (simp add: np_assign_def)

lemma np_assign_pair: "np_assign 2 [a, b] = Inr [a, b]"
  by (simp add: np_assign_def)

lemma np_assign_broadcast2: "np_assign 2 [a] = Inr [a, a]"
  by (simp add: np_assign_def numeral_2_eq_2)

lemma mapE_Inr:
  "(\<And>i. i \<in> set js \<Longrightarrow> f i = Inr (g i)) \<Longrightarrow> mapE f js = Inr (map g js)"
  by (induction js) simp_all

lemma toeplitz_row_value:
  assumes len: "length z = length x" and nc: "0 < numColumns"
    and i: "int i + numColumns + 1 \<le> int (length x)"
    and f: "np_assign 2 (map Re (py_slice x (int i + numColumns + d) (int i + numColumns + d + 2))) = Inr fr"
           "np_assign 2 (map Im (py_slice x (int i + numColumns + d) (int i + numColumns + d + 2))) = Inr fi"
  shows "toeplitz_row d x z numColumns i =
           Inr \<lparr>allTrue = (map Re (take (nat numColumns + 1) (drop i x)),
                            map Im (take (nat numColumns + 1) (drop i x))),
                 observation = (map Re (take (nat numColumns) (drop i z)),
                                map Im (take (nat numColumns) (drop i z))),
                 finalTrue = fr @ fi\<rparr>"
proof -
  have o: "py_slice z (int i) (int i + numColumns) = take (nat numColumns) (drop i z)"
    using len nc i by (simp add: py_slice_in_range)
  have a: "py_slice x (int i) (int i + numColumns + 1) = take (nat numColumns + 1) (drop i x)"
    using nc i by (simp add: py_slice_in_range nat_add_distrib)
  have lo: "length (take (nat numColumns) (drop i z)) = nat numColumns"
    using len nc i by simp
  have la: "length (take (nat numColumns + 1) (drop i x)) = nat (numColumns + 1)"
    using nc i by (simp add: nat_add_distrib)
  have ao: "np_assign (nat numColumns) (map g (take (nat numColumns) (drop i z)))
              = Inr (map g (take (nat numColumns) (drop i z)))" for g :: "complex \<Rightarrow> real"
    by (rule np_assign_same) (simp only: length_map lo)
  have aa: "np_assign (nat (numColumns + 1)) (map g (take (nat numColumns + 1) (drop i x)))
              = Inr (map g (take (nat numColumns + 1) (drop i x)))" for g :: "complex \<Rightarrow> real"
    by (rule np_assign_same) (simp only: length_map la)
  show ?thesis
    unfolding toeplitz_row_def
    by (simp only: f thenE_def sum.case o a ao aa)
qed

lemma toeplitz_row_pkg:
  assumes len: "length z = length x" and nc: "0 < numColumns"
    and i: "int i + numColumns + 1 \<le> int (length x)"
  shows "toeplitz_row (- 1) x z numColumns i =
           Inr \<lparr>allTrue = (map Re (take (nat numColumns + 1) (drop i x)),
                            map Im (take (nat numColumns + 1) (drop i x))),
                 observation = (map Re (take (nat numColumns) (drop i z)),
                                map Im (take (nat numColumns) (drop i z))),
                 finalTrue = [Re (x ! (i + nat numColumns - 1)), Re (x ! (i + nat numColumns)),
                              Im (x ! (i + nat numColumns - 1)), Im (x ! (i + nat numColumns))]\<rparr>"
proof -
  have "py_slice x (int i + numColumns + - 1) (int i + numColumns + - 1 + 2)
        = [x ! nat (int i + numColumns + - 1), x ! (nat (int i + numColumns + - 1) + 1)]"
    using nc i by (intro py_slice_pair) auto
  moreover have "nat (int i + numColumns + - 1) = i + nat numColumns - 1"
    using nc by (simp add: nat_diff_distrib nat_add_distrib)
  moreover have "nat (int i + numColumns + - 1) + 1 = i + nat numColumns"
    using nc by (simp add: nat_diff_distrib nat_add_distrib)
  ultimately have f: "py_slice x (int i + numColumns + - 1) (int i + numColumns + - 1 + 2)
        = [x ! (i + nat numColumns - 1), x ! (i + nat numColumns)]"
    by (simp only:)
  have "np_assign 2 (map Re (py_slice x (int i + numColumns + - 1) (int i + numColumns + - 1 + 2)))
          = Inr [Re (x ! (i + nat numColumns - 1)), Re (x ! (i + nat numColumns))]"
       "np_assign 2 (map Im (py_slice x (int i + numColumns + - 1) (int i + numColumns + - 1 + 2)))
          = Inr [Im (x ! (i + nat numColumns - 1)), Im (x ! (i + nat numColumns))]"
    by (simp_all only: f list.map np_assign_pair)
  from toeplitz_row_value [OF len nc i this] show ?thesis by simp
qed

text \<open>The final states the top-level file writes for window \<open>i\<close>: the last window gets
  the last sample twice.\<close>

lemma toeplitz_row_root:
  assumes len: "length z = length x" and nc: "0 < numColumns"
    and i: "int i + numColumns + 1 \<le> int (length x)"
  shows "toeplitz_row 0 x z numColumns i =
           Inr \<lparr>allTrue = (map Re (take (nat numColumns + 1) (drop i x)),
                            map Im (take (nat numColumns + 1) (drop i x))),
                 observation = (map Re (take (nat numColumns) (drop i z)),
                                map Im (take (nat numColumns) (drop i z))),
                 finalTrue =
                   (if int i + numColumns + 1 = int (length x)
                    then [Re (x ! (i + nat numColumns)), Re (x ! (i + nat numColumns)),
                          Im (x ! (i + nat numColumns)), Im (x ! (i + nat numColumns))]
                    else [Re (x ! (i + nat numColumns)), Re (x ! (i + nat numColumns + 1)),
                          Im (x ! (i + nat numColumns)), Im (x ! (i + nat numColumns + 1))])\<rparr>"
proof -
  have n: "nat (int i + numColumns + 0) = i + nat numColumns"
    using nc by (simp add: nat_add_distrib)
  show ?thesis
  proof (cases "int i + numColumns + 1 = int (length x)")
    case True
    have "py_slice x (int i + numColumns + 0) (int i + numColumns + 0 + 2) = [x ! nat (int i + numColumns + 0)]"
      using True nc by (intro py_slice_last_clamped) auto
    then have f: "py_slice x (int i + numColumns + 0) (int i + numColumns + 0 + 2) = [x ! (i + nat numColumns)]"
      by (simp only: n)
    have "np_assign 2 (map Re (py_slice x (int i + numColumns + 0) (int i + numColumns + 0 + 2)))
            = Inr [Re (x ! (i + nat numColumns)), Re (x ! (i + nat numColumns))]"
         "np_assign 2 (map Im (py_slice x (int i + numColumns + 0) (int i + numColumns + 0 + 2)))
            = Inr [Im (x ! (i + nat numColumns)), Im (x ! (i + nat numColumns))]"
      by (simp_all only: f list.map np_assign_broadcast2)
    from toeplitz_row_value [OF len nc i this] show ?thesis using True by simp
  next
    case False
    have "py_slice x (int i + numColumns + 0) (int i + numColumns + 0 + 2)
            = [x ! nat (int i + numColumns + 0), x ! (nat (int i + numColumns + 0) + 1)]"
      using False i nc by (intro py_slice_pair) auto
    then have f: "py_slice x (int i + numColumns + 0) (int i + numColumns + 0 + 2)
             = [x ! (i + nat numColumns), x ! (i + nat numColumns + 1)]"
      by (simp only: n)
    have "np_assign 2 (map Re (py_slice x (int i + numColumns + 0) (int i + numColumns + 0 + 2)))
            = Inr [Re (x ! (i + nat numColumns)), Re (x ! (i + nat numColumns + 1))]"
         "np_assign 2 (map Im (py_slice x (int i + numColumns + 0) (int i + numColumns + 0 + 2)))
            = Inr [Im (x ! (i + nat numColumns)), Im (x ! (i + nat numColumns + 1))]"
      by (simp_all only: f list.map np_assign_pair)
    from toeplitz_row_value [OF len nc i this] show ?thesis using False by simp
  qed
qed

lemma toeplitzData_gen_raises:
  "int (length x) - 1 - numColumns + 1 < 1 \<Longrightarrow> toeplitzData_gen d (x, z) numColumns = Inl IndexError"
  by (simp add: toeplitzData_gen_def Let_def)

lemma toeplitzData_gen_rows:
  assumes nc: "0 < numColumns" and nr: "1 \<le> int (length x) - 1 - numColumns + 1"
    and rows: "\<And>i. i < nat (int (length x) - 1 - numColumns + 1) \<Longrightarrow>
                 toeplitz_row d x z numColumns i = Inr (W i)"
  shows "toeplitzData_gen d (x, z) numColumns =
           Inr (map (\<lambda>i. allTrue (W i)) [0 ..< nat (int (length x) - 1 - numColumns + 1)],
                map (\<lambda>i. observation (W i)) [0 ..< nat (int (length x) - 1 - numColumns + 1)],
                map (\<lambda>i. finalTrue (W i)) [0 ..< nat (int (length x) - 1 - numColumns + 1)])"
proof -
  let ?n = "nat (int (length x) - 1 - numColumns + 1)"
  have "mapE (toeplitz_row d x z numColumns) [0..<?n] = Inr (map W [0..<?n])"
    by (rule mapE_Inr) (use rows in simp)
  then show ?thesis
    using nc nr by (simp add: toeplitzData_gen_def Let_def thenE_def o_def)
qed

subsection \<open>The windows of both files\<close>

text \<open>
  In \<open>src/gilbertElliot/gilbertElliotDataGen.py\<close> the function returns exactly
  \<open>sequenceLength - numColumns + 1\<close> windows; window \<open>i\<close> holds the parts of
  \<open>x[i : i+numColumns+1]\<close>, of \<open>z[i : i+numColumns]\<close> and, as final states, of
  \<open>(x[i+numColumns-1], x[i+numColumns])\<close>.
\<close>

lemma toeplitzData_pkg_windows:
  assumes "length z = length x" "0 < numColumns" "1 \<le> int (length x) - 1 - numColumns + 1"
  shows "toeplitzData_pkg (x, z) numColumns =
     Inr (map (\<lambda>i. (map Re (take (nat numColumns + 1) (drop i x)),
                     map Im (take (nat numColumns + 1) (drop i x))))
            [0 ..< nat (int (length x) - 1 - numColumns + 1)],
          map (\<lambda>i. (map Re (take (nat numColumns) (drop i z)),
                     map Im (take (nat numColumns) (drop i z))))
            [0 ..< nat (int (length x) - 1 - numColumns + 1)],
          map (\<lambda>i. [Re (x ! (i + nat numColumns - 1)), Re (x ! (i + nat numColumns)),
                     Im (x ! (i + nat numColumns - 1)), Im (x ! (i + nat numColumns))])
            [0 ..< nat (int (length x) - 1 - numColumns + 1)])"
proof -
  have "toeplitzData_gen (- 1) (x, z) numColumns =
     Inr (map (\<lambda>i. allTrue \<lparr>allTrue = (map Re (take (nat numColumns + 1) (drop i x)),
                            map Im (take (nat numColumns + 1) (drop i x))),
                 observation = (map Re (take (nat numColumns) (drop i z)),
                                map Im (take (nat numColumns) (drop i z))),
                 finalTrue = [Re (x ! (i + nat numColumns - 1)), Re (x ! (i + nat numColumns)),
                              Im (x ! (i + nat numColumns - 1)), Im (x ! (i + nat numColumns))]\<rparr>)
            [0 ..< nat (int (length x) - 1 - numColumns + 1)],
          map (\<lambda>i. observation \<lparr>allTrue = (map Re (take (nat numColumns + 1) (drop i x)),
                            map Im (take (nat numColumns + 1) (drop i x))),
                 observation = (map Re (take (nat numColumns) (drop i z)),
                                map Im (take (nat numColumns) (drop i z))),
                 finalTrue = [Re (x ! (i + nat numColumns - 1)), Re (x ! (i + nat numColumns)),
                              Im (x ! (i + nat numColumns - 1)), Im (x ! (i + nat numColumns))]\<rparr>)
            [0 ..< nat (int (length x) - 1 - numColumns + 1)],
          map (\<lambda>i. finalTrue \<lparr>allTrue = (map Re (take (nat numColumns + 1) (drop i x)),
                            map Im (take (nat numColumns + 1) (drop i x))),
                 observation = (map Re (take (nat numColumns) (drop i z)),
                                map Im (take (nat numColumns) (drop i z))),
                 finalTrue = [Re (x ! (i + nat numColumns - 1)), Re (x ! (i + nat numColumns)),
                              Im (x ! (i + nat numColumns - 1)), Im (x ! (i + nat numColumns))]\<rparr>)
            [0 ..< nat (int (length x) - 1 - numColumns + 1)])"
  proof (rule toeplitzData_gen_rows [OF assms(2,3)])
    fix i assume "i < nat (int (length x) - 1 - numColumns + 1)"
    then have "int i + numColumns + 1 \<le> int (length x)" by linarith
    from toeplitz_row_pkg [OF assms(1,2) this]
    show "toeplitz_row (- 1) x z numColumns i =
           Inr \<lparr>allTrue = (map Re (take (nat numColumns + 1) (drop i x)),
                            map Im (take (nat numColumns + 1) (drop i x))),
                 observation = (map Re (take (nat numColumns) (drop i z)),
                                map Im (take (nat numColumns) (drop i z))),
                 finalTrue = [Re (x ! (i + nat numColumns - 1)), Re (x ! (i + nat numColumns)),
                              Im (x ! (i + nat numColumns - 1)), Im (x ! (i + nat numColumns))]\<rparr>" .
  qed
  then show ?thesis by (simp add: toeplitzData_pkg_def)
qed

text \<open>
  In \<open>src/gilbertElliotDataGen.py\<close> the windows of states and of observations are the
  same; the final states of window \<open>i\<close> are the parts of
  \<open>(x[i+numColumns], x[i+numColumns+1])\<close>, and of \<open>(x[i+numColumns], x[i+numColumns])\<close>
  in the last window.
\<close>

lemma toeplitzData_root_windows:
  assumes "length z = length x" "0 < numColumns" "1 \<le> int (length x) - 1 - numColumns + 1"
  shows "toeplitzData_root (x, z) numColumns =
     Inr (map (\<lambda>i. (map Re (take (nat numColumns + 1) (drop i x)),
                     map Im (take (nat numColumns + 1) (drop i x))))
            [0 ..< nat (int (length x) - 1 - numColumns + 1)],
          map (\<lambda>i. (map Re (take (nat numColumns) (drop i z)),
                     map Im (take (nat numColumns) (drop i z))))
            [0 ..< nat (int (length x) - 1 - numColumns + 1)],
          map (\<lambda>i. if int i + numColumns + 1 = int (length x)
                    then [Re (x ! (i + nat numColumns)), Re (x ! (i + nat numColumns)),
                          Im (x ! (i + nat numColumns)), Im (x ! (i + nat numColumns))]
                    else [Re (x ! (i + nat numColumns)), Re (x ! (i + nat numColumns + 1)),
                          Im (x ! (i + nat numColumns)), Im (x ! (i + nat numColumns + 1))])
            [0 ..< nat (int (length x) - 1 - numColumns + 1)])"
proof -
  let ?W = "\<lambda>i. \<lparr>allTrue = (map Re (take (nat numColumns + 1) (drop i x)),
                            map Im (take (nat numColumns + 1) (drop i x))),
                 observation = (map Re (take (nat numColumns) (drop i z)),
                                map Im (take (nat numColumns) (drop i z))),
                 finalTrue =
                   (if int i + numColumns + 1 = int (length x)
                    then [Re (x ! (i + nat numColumns)), Re (x ! (i + nat numColumns)),
                          Im (x ! (i + nat numColumns)), Im (x ! (i + nat numColumns))]
                    else [Re (x ! (i + nat numColumns)), Re (x ! (i + nat numColumns + 1)),
                          Im (x ! (i + nat numColumns)), Im (x ! (i + nat numColumns + 1))])\<rparr>"
  have "toeplitzData_gen 0 (x, z) numColumns =
     Inr (map (\<lambda>i. allTrue (?W i)) [0 ..< nat (int (length x) - 1 - numColumns + 1)],
          map (\<lambda>i. observation (?W i)) [0 ..< nat (int (length x) - 1 - numColumns + 1)],
          map (\<lambda>i. finalTrue (?W i)) [0 ..< nat (int (length x) - 1 - numColumns + 1)])"
  proof (rule toeplitzData_gen_rows [OF assms(2,3)])
    fix i assume "i < nat (int (length x) - 1 - numColumns + 1)"
    then have "int i + numColumns + 1 \<le> int (length x)" by linarith
    from toeplitz_row_root [OF assms(1,2) this]
    show "toeplitz_row 0 x z numColumns i = Inr (?W i)" .
  qed
  then show ?thesis by (simp add: toeplitzData_root_def)
qed

lemma upt_2: "[0..<2] = [0, 1::nat]"
  by (simp add: numeral_2_eq_2)

lemma replicate_2: "replicate 2 a = [a, a]"
  by (simp add: numeral_2_eq_2)

text \<open>
  Claim C7. For a trajectory whose two arrays have the same length and a window size
  \<open>numColumns > 0\<close>, \<open>toeplitzData\<close> (in both files) raises exactly when
  \<open>sequenceLength - numColumns + 1 < 1\<close>, where \<open>sequenceLength\<close> is the length of the
  trajectory minus one, and otherwise returns its three arrays: one window per index
  \<open>i < sequenceLength - numColumns + 1\<close>, holding the real and imaginary parts of
  \<open>x[i : i+numColumns+1]\<close>, of \<open>z[i : i+numColumns]\<close> and of the two final states of the
  file. The exception that leaves the function is the \<open>IndexError\<close> raised while the
  message of the \<open>raise Exception(...)\<close> statement is formatted; \<open>IndexError\<close> is a
  subclass of \<open>Exception\<close>, so a caller that handles the intended exception handles this
  one.
\<close>

theorem toeplitzData_raises_iff:
  assumes "length z = length x" "0 < numColumns"
  shows "(isl (toeplitzData_pkg (x, z) numColumns) \<longleftrightarrow> int (length x) - 1 - numColumns + 1 < 1) \<and>
         (isl (toeplitzData_root (x, z) numColumns) \<longleftrightarrow> int (length x) - 1 - numColumns + 1 < 1) \<and>
         (int (length x) - 1 - numColumns + 1 < 1 \<longrightarrow>
            toeplitzData_pkg (x, z) numColumns = Inl IndexError \<and>
            toeplitzData_root (x, z) numColumns = Inl IndexError) \<and>
         (1 \<le> int (length x) - 1 - numColumns + 1 \<longrightarrow>
            toeplitzData_pkg (x, z) numColumns =
              Inr (map (\<lambda>i. (map Re (take (nat numColumns + 1) (drop i x)),
                              map Im (take (nat numColumns + 1) (drop i x))))
                     [0 ..< nat (int (length x) - 1 - numColumns + 1)],
                   map (\<lambda>i. (map Re (take (nat numColumns) (drop i z)),
                              map Im (take (nat numColumns) (drop i z))))
                     [0 ..< nat (int (length x) - 1 - numColumns + 1)],
                   map (\<lambda>i. [Re (x ! (i + nat numColumns - 1)), Re (x ! (i + nat numColumns)),
                              Im (x ! (i + nat numColumns - 1)), Im (x ! (i + nat numColumns))])
                     [0 ..< nat (int (length x) - 1 - numColumns + 1)]) \<and>
            toeplitzData_root (x, z) numColumns =
              Inr (map (\<lambda>i. (map Re (take (nat numColumns + 1) (drop i x)),
                              map Im (take (nat numColumns + 1) (drop i x))))
                     [0 ..< nat (int (length x) - 1 - numColumns + 1)],
                   map (\<lambda>i. (map Re (take (nat numColumns) (drop i z)),
                              map Im (take (nat numColumns) (drop i z))))
                     [0 ..< nat (int (length x) - 1 - numColumns + 1)],
                   map (\<lambda>i. if int i + numColumns + 1 = int (length x)
                             then [Re (x ! (i + nat numColumns)), Re (x ! (i + nat numColumns)),
                                   Im (x ! (i + nat numColumns)), Im (x ! (i + nat numColumns))]
                             else [Re (x ! (i + nat numColumns)), Re (x ! (i + nat numColumns + 1)),
                                   Im (x ! (i + nat numColumns)), Im (x ! (i + nat numColumns + 1))])
                     [0 ..< nat (int (length x) - 1 - numColumns + 1)]))"
proof (cases "int (length x) - 1 - numColumns + 1 < 1")
  case True
  then show ?thesis
    by (simp add: toeplitzData_pkg_def toeplitzData_root_def toeplitzData_gen_raises)
next
  case False
  then have nr: "1 \<le> int (length x) - 1 - numColumns + 1" by simp
  note p = toeplitzData_pkg_windows [OF assms nr]
  note r = toeplitzData_root_windows [OF assms nr]
  have "\<not> isl (toeplitzData_pkg (x, z) numColumns)" "\<not> isl (toeplitzData_root (x, z) numColumns)"
    by (simp_all only: p r sum.disc simp_thms)
  then show ?thesis using False nr p r by simp
qed

theorem toeplitzData_raises_iff_witness:
  "length [Complex 4 40, Complex 5 50, Complex 6 60] = length [Complex 1 10, Complex 2 20, Complex 3 30] \<and>
   (0::int) < 1 \<and>
   toeplitzData_pkg ([Complex 1 10, Complex 2 20, Complex 3 30], [Complex 4 40, Complex 5 50, Complex 6 60]) 1
     = Inr ([([1, 2], [10, 20]), ([2, 3], [20, 30])],
            [([4], [40]), ([5], [50])],
            [[1, 2, 10, 20], [2, 3, 20, 30]]) \<and>
   toeplitzData_root ([Complex 1 10, Complex 2 20, Complex 3 30], [Complex 4 40, Complex 5 50, Complex 6 60]) 1
     = Inr ([([1, 2], [10, 20]), ([2, 3], [20, 30])],
            [([4], [40]), ([5], [50])],
            [[2, 3, 20, 30], [3, 3, 30, 30]]) \<and>
   toeplitzData_pkg ([Complex 1 10, Complex 2 20, Complex 3 30], [Complex 4 40, Complex 5 50, Complex 6 60]) 3
     = Inl IndexError \<and>
   toeplitzData_root ([Complex 1 10, Complex 2 20, Complex 3 30], [Complex 4 40, Complex 5 50, Complex 6 60]) 3
     = Inl IndexError"
  using toeplitzData_raises_iff [of "[Complex 4 40, Complex 5 50, Complex 6 60]"
          "[Complex 1 10, Complex 2 20, Complex 3 30]" 1]
        toeplitzData_raises_iff [of "[Complex 4 40, Complex 5 50, Complex 6 60]"
          "[Complex 1 10, Complex 2 20, Complex 3 30]" 3]
  by (simp add: upt_2)

text \<open>
  The window size of the statement above is positive. With \<open>numColumns = 0\<close> the package
  file asks for the slice \<open>x[-1:1]\<close>, which is empty on a trajectory of three samples,
  and a negative \<open>numColumns\<close> is a negative dimension: both raise \<open>ValueError\<close> although
  \<open>sequenceLength - numColumns + 1\<close> is at least 1.
\<close>

lemma toeplitzData_nonpositive_columns:
  "toeplitzData_pkg ([1, 2, 3], [4, 5, 6]) 0 = Inl ValueError \<and>
   toeplitzData_pkg ([1, 2, 3], [4, 5, 6]) (- 1) = Inl ValueError \<and>
   toeplitzData_root ([1, 2, 3], [4, 5, 6]) (- 1) = Inl ValueError"
  by (simp add: toeplitzData_pkg_def toeplitzData_root_def toeplitzData_gen_def toeplitz_row_def
      py_slice_def np_assign_def thenE_def Let_def upt_conv_Cons)

text \<open>
  Claim C1. The claim asks \<open>finalStates[:, i]\<close> to hold the real and imaginary parts of
  \<open>(x[i+windowSize-1], x[i+windowSize])\<close>. On the trajectory \<open>x = [1+10j, 2+20j, 3+30j]\<close>
  with window size 1, \<open>toeplitzData\<close> of \<open>src/gilbertElliotDataGen.py\<close> returns for window 0
  the parts of \<open>(x[1], x[2])\<close> and for window 1 the parts of \<open>(x[2], x[2])\<close>: its slice
  starts one sample late.
\<close>

theorem toeplitzData_root_final_off_by_one:
  "toeplitzData_root ([Complex 1 10, Complex 2 20, Complex 3 30], [Complex 4 40, Complex 5 50, Complex 6 60]) 1
     = Inr ([([1, 2], [10, 20]), ([2, 3], [20, 30])],
            [([4], [40]), ([5], [50])],
            [[2, 3, 20, 30], [3, 3, 30, 30]])"
  by (simp add: toeplitzData_root_def toeplitzData_gen_def toeplitz_row_def py_slice_def
      np_assign_def thenE_def Let_def upt_2 replicate_2)

text \<open>
  On the same input the function of \<open>src/gilbertElliot/gilbertElliotDataGen.py\<close> returns
  \<open>(x[0], x[1])\<close> and \<open>(x[1], x[2])\<close>.
\<close>

lemma toeplitzData_pkg_final_example:
  "toeplitzData_pkg ([Complex 1 10, Complex 2 20, Complex 3 30], [Complex 4 40, Complex 5 50, Complex 6 60]) 1
     = Inr ([([1, 2], [10, 20]), ([2, 3], [20, 30])],
            [([4], [40]), ([5], [50])],
            [[1, 2, 10, 20], [2, 3, 20, 30]])"
  by (simp add: toeplitzData_pkg_def toeplitzData_gen_def toeplitz_row_def py_slice_def
      np_assign_def thenE_def Let_def upt_2 replicate_2)

text \<open>
  Claim C9. In \<open>src/gilbertElliotDataGen.py\<close> the slice written to the final states of
  the last window stops at index \<open>sequenceLength + 2\<close>, beyond the trajectory. On a
  trajectory of four samples with two columns, the last window \<open>i = 1\<close> asks for
  \<open>x[3:5]\<close>: the slice is cut to the single sample \<open>x[3]\<close>, and the assignment
  broadcasts it into both the current and the next state.
\<close>

theorem toeplitz_row_root_reads_past_end:
  "py_slice [Complex 1 10, Complex 2 20, Complex 3 30, Complex 4 40] (1 + 2 + 0) (1 + 2 + 0 + 2) = [Complex 4 40] \<and>
   \<not> (1 + 2 + 0 + 2 \<le> int (length [Complex 1 10, Complex 2 20, Complex 3 30, Complex 4 40])) \<and>
   toeplitz_row 0 [Complex 1 10, Complex 2 20, Complex 3 30, Complex 4 40]
                  [Complex 5 50, Complex 6 60, Complex 7 70, Complex 8 80] 2 1
     = Inr \<lparr>allTrue = ([2, 3, 4], [20, 30, 40]), observation = ([6, 7], [60, 70]),
            finalTrue = [4, 4, 40, 40]\<rparr>"
  by (simp add: toeplitz_row_def py_slice_def np_assign_def thenE_def Let_def replicate_2)

section \<open>Properties of GilEllDataGen\<close>

subsection \<open>The transition draw\<close>

text \<open>
  In \<open>src/gilbertElliot/gilbertElliotDataGen.py\<close> the draw from \<open>good\<close> gives \<open>good\<close> the
  probability \<open>1 - p\<close> and \<open>bad\<close> the probability \<open>p\<close>, and the draw from \<open>bad\<close> gives
  \<open>bad\<close> the probability \<open>1 - q\<close> and \<open>good\<close> the probability \<open>q\<close>.
\<close>

lemma transition_pkg_probabilities:
  "prob_of ''good'' (transitionStateArray ! 0) (transitionProbabiltyArray_pkg p q ! 0) = 1 - p \<and>
   prob_of ''bad'' (transitionStateArray ! 0) (transitionProbabiltyArray_pkg p q ! 0) = p \<and>
   prob_of ''bad'' (transitionStateArray ! 1) (transitionProbabiltyArray_pkg p q ! 1) = 1 - q \<and>
   prob_of ''good'' (transitionStateArray ! 1) (transitionProbabiltyArray_pkg p q ! 1) = q"
  by (simp add: prob_of_def transitionStateArray_def transitionProbabiltyArray_pkg_def)

text \<open>
  Claim C2. The claim asks both files to draw with \<open>(1 - p, p)\<close> from \<open>good\<close> and
  \<open>(1 - q, q)\<close> from \<open>bad\<close>. In \<open>src/gilbertElliotDataGen.py\<close>, with \<open>p = 1/4\<close> and
  \<open>q = 1/10\<close>, the candidates \<open>[good, bad]\<close> are paired with \<open>[1/4, 3/4]\<close> and the
  candidates \<open>[bad, good]\<close> with \<open>[1/10, 9/10]\<close>: the chain leaves \<open>good\<close> with probability
  \<open>1 - p\<close> and leaves \<open>bad\<close> with probability \<open>1 - q\<close>.
\<close>

theorem transition_root_probabilities_swapped:
  "transitionStateArray ! 0 = [''good'', ''bad''] \<and>
   transitionProbabiltyArray_root (1/4) (1/10) ! 0 = [1/4, 3/4] \<and>
   prob_of ''good'' (transitionStateArray ! 0) (transitionProbabiltyArray_root (1/4) (1/10) ! 0) = 1/4 \<and>
   prob_of ''bad'' (transitionStateArray ! 0) (transitionProbabiltyArray_root (1/4) (1/10) ! 0) = 3/4 \<and>
   transitionStateArray ! 1 = [''bad'', ''good''] \<and>
   transitionProbabiltyArray_root (1/4) (1/10) ! 1 = [1/10, 9/10] \<and>
   prob_of ''bad'' (transitionStateArray ! 1) (transitionProbabiltyArray_root (1/4) (1/10) ! 1) = 1/10 \<and>
   prob_of ''good'' (transitionStateArray ! 1) (transitionProbabiltyArray_root (1/4) (1/10) ! 1) = 9/10"
  by (simp add: prob_of_def transitionStateArray_def transitionProbabiltyArray_root_def)

subsection \<open>The noise parameter\<close>

lemma noise_setup_float: "noise_setup (Some (NoiseFloat f)) = Inl TypeError"
  by (simp add: noise_setup_def thenE_def)

text \<open>
  Claim C10. When \<open>params[3]\<close> is a bare float, both files raise \<open>TypeError\<close> before any
  sample is drawn: \<open>len(params[3])\<close> is evaluated before the test for a float. The only
  statement that can raise earlier is the seeding, so the seed is one that is ignored or
  accepted.
\<close>

theorem GilEllDataGen_bare_float_TypeError:
  assumes "noise ps = Some (NoiseFloat f)" and "seed \<le> 0 \<or> \<not> isl (np_seed rng seed)"
  shows "GilEllDataGen_root rng sda ps seed g = Inl TypeError \<and>
         GilEllDataGen_pkg rng sda ps seed g = Inl TypeError"
proof -
  have "\<exists>g0. (if seed > 0 then np_seed rng seed else Inr g) = Inr g0"
  proof (cases "seed > 0")
    case True
    with assms(2) have "\<not> isl (np_seed rng seed)" by simp
    then obtain b where "np_seed rng seed = Inr b" by (cases "np_seed rng seed") auto
    with True show ?thesis by simp
  next
    case False
    then show ?thesis by simp
  qed
  then obtain g0 where g0: "(if seed > 0 then np_seed rng seed else Inr g) = Inr g0" ..
  show ?thesis
    unfolding GilEllDataGen_root_def GilEllDataGen_pkg_def
    by (simp only: g0 assms(1) noise_setup_float thenE_def Let_def sum.case)
qed

theorem GilEllDataGen_bare_float_TypeError_witness:
  "noise (example_params 20 (Some (NoiseFloat (1/10)))) = Some (NoiseFloat (1/10)) \<and>
   \<not> isl (np_seed counter_rng 100) \<and>
   GilEllDataGen_root counter_rng unit_sda (example_params 20 (Some (NoiseFloat (1/10)))) 100 0 = Inl TypeError \<and>
   GilEllDataGen_pkg counter_rng unit_sda (example_params 20 (Some (NoiseFloat (1/10)))) 100 0 = Inl TypeError"
  using GilEllDataGen_bare_float_TypeError
    [of "example_params 20 (Some (NoiseFloat (1/10)))" "1/10" 100 counter_rng unit_sda 0]
  by (simp add: example_params_def counter_rng_def)

subsection \<open>Determinism\<close>

text \<open>
  Claim C6, as amended. For every seed greater than zero, the result of a call (outputs,
  exception, and the state the generator is left in) does not depend on the state of the
  global generator when the call starts: two calls with the same parameters and the same
  positive seed return the same trajectories. This holds for both files.
\<close>

theorem GilEllDataGen_deterministic_positive_seed:
  assumes "0 < seed"
  shows "GilEllDataGen_root rng sda ps seed g1 = GilEllDataGen_root rng sda ps seed g2 \<and>
         GilEllDataGen_pkg rng sda ps seed g1 = GilEllDataGen_pkg rng sda ps seed g2"
  using assms unfolding GilEllDataGen_root_def GilEllDataGen_pkg_def by simp

theorem GilEllDataGen_deterministic_positive_seed_witness:
  "(0 :: int) < 100 \<and>
   GilEllDataGen_root counter_rng unit_sda (example_params 20 (Some (NoiseSeq [1/10, 1/10]))) 100 0
     = GilEllDataGen_root counter_rng unit_sda (example_params 20 (Some (NoiseSeq [1/10, 1/10]))) 100 7 \<and>
   GilEllDataGen_pkg counter_rng unit_sda (example_params 20 (Some (NoiseSeq [1/10, 1/10]))) 100 0
     = GilEllDataGen_pkg counter_rng unit_sda (example_params 20 (Some (NoiseSeq [1/10, 1/10]))) 100 7"
  using GilEllDataGen_deterministic_positive_seed
    [of 100 counter_rng unit_sda "example_params 20 (Some (NoiseSeq [1/10, 1/10]))" 0 7]
  by simp

subsection \<open>Evaluation on concrete inputs\<close>

lemmas gen_eval_defs = thenE_def Let_def noise_setup_def start_state_def riccatiConvergences_def
  riccati_row_def unit_sda_def counter_rng_def example_params_def select_F_def draw_noise_def
  start_sample_def
  randn_2_1_def matmul_rr_def matmul_rc_def matmul_H_def markov_transition_def
  transitionStateArray_def transitionProbabiltyArray_pkg_def transitionProbabiltyArray_root_def

text \<open>
  Claim C6 as stated fails for a seed that is not positive. With the default seed \<open>-1\<close>
  nothing is seeded: a first call that starts with the counter generator in state 0
  leaves it in state 10, and the second call with the same parameters and the same seed
  returns a different trajectory.
\<close>

theorem GilEllDataGen_pkg_unseeded_calls_differ:
  "GilEllDataGen_pkg counter_rng unit_sda (example_params 0 (Some (NoiseSeq [1/10, 1/10]))) (- 1) 0
     = Inr (([Complex (6 / sqrt 2) (8 / sqrt 2)],
             [Complex (6 / sqrt 2 + sqrt (1/10) * 4 / sqrt 2) (8 / sqrt 2 + sqrt (1/10) * 5 / sqrt 2)],
             ((1, 1/11), (1, 1/11)), [(3/10, 1/10)]), 10) \<and>
   GilEllDataGen_pkg counter_rng unit_sda (example_params 0 (Some (NoiseSeq [1/10, 1/10]))) (- 1) 10
     = Inr (([Complex (16 / sqrt 2) (18 / sqrt 2)],
             [Complex (16 / sqrt 2 + sqrt (1/10) * 14 / sqrt 2) (18 / sqrt 2 + sqrt (1/10) * 15 / sqrt 2)],
             ((1, 1/11), (1, 1/11)), [(3/10, 1/10)]), 20) \<and>
   [Complex (6 / sqrt 2) (8 / sqrt 2)] \<noteq> [Complex (16 / sqrt 2) (18 / sqrt 2)]"
  by (simp add: GilEllDataGen_pkg_def gen_step_pkg_def gen_eval_defs complex_eq_iff)

section \<open>Properties of the mismatched generator\<close>

subsection \<open>The rejection loop\<close>

text \<open>
  The loop returns the first drawn matrix that passes the test, after as many rounds as
  that takes, and returns nothing when no drawn matrix passes.
\<close>

lemma coeff_loop_first_pass:
  assumes "\<not> any_entry (eigValsEvaluated (fst ((coeff_draw rng m v ^^ Suc n) s)))"
    and "\<forall>k<n. any_entry (eigValsEvaluated (fst ((coeff_draw rng m v ^^ Suc k) s)))"
  shows "coeff_loop rng m v s = Some ((coeff_draw rng m v ^^ Suc n) s)"
  using assms
proof (induction n arbitrary: s)
  case 0
  then show ?case by (subst coeff_loop.simps) (simp add: Let_def)
next
  case (Suc n)
  let ?D = "coeff_draw rng m v"
  have u: "any_entry (eigValsEvaluated (fst (?D s)))"
    using Suc.prems(2) [rule_format, of 0] by simp
  have a: "\<not> any_entry (eigValsEvaluated (fst ((?D ^^ Suc n) (?D s))))"
    using Suc.prems(1) by (simp add: funpow_swap1)
  have b: "\<forall>k<n. any_entry (eigValsEvaluated (fst ((?D ^^ Suc k) (?D s))))"
  proof (intro allI impI)
    fix k assume "k < n"
    then have "any_entry (eigValsEvaluated (fst ((?D ^^ Suc (Suc k)) s)))"
      using Suc.prems(2) by auto
    then show "any_entry (eigValsEvaluated (fst ((?D ^^ Suc k) (?D s))))"
      by (simp add: funpow_swap1)
  qed
  have "coeff_loop rng m v s = coeff_loop rng m v (?D s)"
    by (subst coeff_loop.simps) (simp add: Let_def u)
  also have "\<dots> = Some ((?D ^^ Suc n) (?D s))"
    by (rule Suc.IH [OF a b])
  also have "(?D ^^ Suc n) (?D s) = (?D ^^ Suc (Suc n)) s"
    by (simp add: funpow_swap1)
  finally show ?case .
qed

lemma coeff_loop_returns_first_pass:
  assumes "coeff_loop rng m v s = Some r"
  shows "\<exists>n. r = (coeff_draw rng m v ^^ Suc n) s \<and>
             \<not> any_entry (eigValsEvaluated (fst r)) \<and>
             (\<forall>k<n. any_entry (eigValsEvaluated (fst ((coeff_draw rng m v ^^ Suc k) s))))"
proof -
  define P where "P = (\<lambda>rng' m' v' s' (r' :: rmat2 \<times> 'a).
     \<exists>n. r' = (coeff_draw rng' m' v' ^^ Suc n) s' \<and>
         \<not> any_entry (eigValsEvaluated (fst r')) \<and>
         (\<forall>k<n. any_entry (eigValsEvaluated (fst ((coeff_draw rng' m' v' ^^ Suc k) s')))))"
  have "P rng m v s r"
  proof (rule coeff_loop.raw_induct [of P, OF _ assms])
    fix loop :: "'a torch_random \<Rightarrow> real \<times> real \<Rightarrow> real \<Rightarrow> rmat2 \<times> 'a \<Rightarrow> (rmat2 \<times> 'a) option"
    fix rng m v s r
    assume IH: "\<And>rng m v s y. loop rng m v s = Some y \<Longrightarrow> P rng m v s y"
    assume eq: "(let s' = coeff_draw rng m v s
                 in if \<not> any_entry (eigValsEvaluated (fst s')) then Some s'
                    else loop rng m v s') = Some r"
    let ?D = "coeff_draw rng m v"
    show "P rng m v s r"
    proof (cases "any_entry (eigValsEvaluated (fst (?D s)))")
      case False
      with eq have "r = ?D s" by (simp add: Let_def)
      with False show ?thesis unfolding P_def by (intro exI [of _ 0]) simp
    next
      case True
      with eq have "loop rng m v (?D s) = Some r" by (simp add: Let_def)
      from IH [OF this] obtain n where n: "r = (?D ^^ Suc n) (?D s)"
        "\<not> any_entry (eigValsEvaluated (fst r))"
        "\<forall>k<n. any_entry (eigValsEvaluated (fst ((?D ^^ Suc k) (?D s))))"
        unfolding P_def by blast
      have "\<forall>k<Suc n. any_entry (eigValsEvaluated (fst ((?D ^^ Suc k) s)))"
      proof (intro allI impI)
        fix k assume k: "k < Suc n"
        show "any_entry (eigValsEvaluated (fst ((?D ^^ Suc k) s)))"
        proof (cases k)
          case 0
          with True show ?thesis by simp
        next
          case (Suc j)
          with k n(3) have "any_entry (eigValsEvaluated (fst ((?D ^^ Suc j) (?D s))))" by simp
          with Suc show ?thesis by (simp add: funpow_swap1)
        qed
      qed
      moreover have "r = (?D ^^ Suc (Suc n)) s" using n(1) by (simp add: funpow_swap1)
      ultimately show ?thesis unfolding P_def using n(2) by blast
    qed
  qed
  then show ?thesis unfolding P_def .
qed

lemma coeff_loop_never_passes:
  assumes "\<And>n. any_entry (eigValsEvaluated (fst ((coeff_draw rng m v ^^ Suc n) s)))"
  shows "coeff_loop rng m v s = None"
proof (cases "coeff_loop rng m v s")
  case None
  then show ?thesis .
next
  case (Some r)
  from coeff_loop_returns_first_pass [OF Some] obtain n where
    "r = (coeff_draw rng m v ^^ Suc n) s" "\<not> any_entry (eigValsEvaluated (fst r))" by blast
  with assms [of n] show ?thesis by simp
qed

lemma sqrt_9: "sqrt 9 = 3"
  by (rule real_sqrt_unique) simp_all

lemma sqrt_9_4: "sqrt (9/4) = 3/2"
  by (rule real_sqrt_unique) (simp_all add: power2_eq_square)

lemma coeff_draw_zero_var: "fst (coeff_draw rng m 0 s) = (m, snd (fst s))"
  by (simp add: coeff_draw_def Let_def split: prod.splits)

lemma coeff_draw_zero_var_funpow:
  "fst ((coeff_draw rng m 0 ^^ Suc n) s) = (m, snd (fst s))"
proof (induction n)
  case 0
  show ?case by (simp add: coeff_draw_zero_var)
next
  case (Suc n)
  have "fst ((coeff_draw rng m 0 ^^ Suc (Suc n)) s)
        = fst (coeff_draw rng m 0 ((coeff_draw rng m 0 ^^ Suc n) s))" by simp
  also have "\<dots> = (m, snd (fst ((coeff_draw rng m 0 ^^ Suc n) s)))"
    by (rule coeff_draw_zero_var)
  also have "\<dots> = (m, snd (fst s))" using Suc by simp
  finally show ?case .
qed

lemma torch_eig_3_0: "torch_eig ((3, 0), (1, 0)) = [(3, 0), (0, 0)]"
  by (simp add: torch_eig_def Let_def sqrt_9)

lemma unstable_3_0: "any_entry (eigValsEvaluated ((3, 0), (1, 0)))"
  by (simp add: any_entry_def eigValsEvaluated_def torch_eig_3_0)

text \<open>
  Claim C4 as stated fails: the loop has no attempt ceiling. With the means \<open>(3, 0)\<close> and
  noise variance \<open>0\<close> every round draws the matrix \<open>[[3, 0], [1, 0]]\<close>, whose eigenvalue 3
  fails the test, and the function never returns; it raises nothing.
\<close>

theorem ARCoeffecientGeneration_never_returns:
  "ARCoeffecientGeneration list_torch (3, 0) 0 (- 1) [] = None"
  unfolding ARCoeffecientGeneration_def Let_def
  by (rule coeff_loop_never_passes)
     (simp only: coeff_draw_zero_var_funpow fst_conv snd_conv unstable_3_0)

text \<open>
  Claim C4, as amended. \<open>ARCoeffecientGeneration\<close> has no bound on its rounds and raises no
  error: it returns exactly when some round draws a matrix that passes the eigenvalue
  test, and then returns the matrix of the first such round, whatever the number of
  rounds before it; when every round fails the test it does not return.
\<close>

theorem ARCoeffecientGeneration_returns_first_pass:
  "(ARCoeffecientGeneration rng arCoeffMeans var seed g = Some r \<longleftrightarrow>
      (\<exists>n. r = (coeff_draw rng arCoeffMeans var ^^ Suc n)
                  (((1, 0), (1, 0)), if seed > 0 then manual_seed rng seed else g) \<and>
           \<not> any_entry (eigValsEvaluated (fst r)) \<and>
           (\<forall>k<n. any_entry (eigValsEvaluated (fst ((coeff_draw rng arCoeffMeans var ^^ Suc k)
                  (((1, 0), (1, 0)), if seed > 0 then manual_seed rng seed else g))))))) \<and>
   ((\<forall>n. any_entry (eigValsEvaluated (fst ((coeff_draw rng arCoeffMeans var ^^ Suc n)
                  (((1, 0), (1, 0)), if seed > 0 then manual_seed rng seed else g)))))
      \<longrightarrow> ARCoeffecientGeneration rng arCoeffMeans var seed g = None)"
proof -
  let ?s = "(((1, 0), (1, 0)), if seed > 0 then manual_seed rng seed else g) :: rmat2 \<times> 'a"
  have e: "ARCoeffecientGeneration rng arCoeffMeans var seed g = coeff_loop rng arCoeffMeans var ?s"
    by (simp add: ARCoeffecientGeneration_def Let_def)
  show ?thesis
    unfolding e
    using coeff_loop_first_pass [where rng = rng and m = arCoeffMeans and v = var and s = ?s]
          coeff_loop_returns_first_pass [where rng = rng and m = arCoeffMeans and v = var and s = ?s and r = r]
          coeff_loop_never_passes [where rng = rng and m = arCoeffMeans and v = var and s = ?s]
    by blast
qed

lemma torch_eig_a: "torch_eig ((5/2, 11/16), (1, 0)) = [(11/4, 0), (- (1/4), 0)]"
  by (simp add: torch_eig_def Let_def sqrt_9)

lemma torch_eig_b: "torch_eig ((3/2, - (9/8)), (1, 0)) = [(3/4, 3/4), (3/4, - (3/4))]"
  by (simp add: torch_eig_def Let_def sqrt_9_4)

lemma draws_example:
  "coeff_draw list_torch (1/2, 2/5) 1 (((1, 0), (1, 0)), [2, 23/80, 1, - (61/40)])
     = (((5/2, 11/16), (1, 0)), [1, - (61/40)])"
  "coeff_draw list_torch (1/2, 2/5) 1 (((5/2, 11/16), (1, 0)), [1, - (61/40)])
     = (((3/2, - (9/8)), (1, 0)), [])"
  by (simp_all add: coeff_draw_def list_torch_def Let_def)

theorem ARCoeffecientGeneration_returns_first_pass_witness:
  "ARCoeffecientGeneration list_torch (1/2, 2/5) 1 (- 1) [2, 23/80, 1, - (61/40)]
     = Some (((3/2, - (9/8)), (1, 0)), []) \<and>
   any_entry (eigValsEvaluated (fst (coeff_draw list_torch (1/2, 2/5) 1
        (((1, 0), (1, 0)), [2, 23/80, 1, - (61/40)])))) \<and>
   \<not> any_entry (eigValsEvaluated ((3/2, - (9/8)), (1, 0)))"
proof -
  let ?s = "(((1, 0), (1, 0)), [2, 23/80, 1, - (61/40)]) :: rmat2 \<times> real list"
  let ?D = "coeff_draw list_torch (1/2, 2/5) 1"
  have d1: "?D ?s = (((5/2, 11/16), (1, 0)), [1, - (61/40)])"
    and d2: "(?D ^^ Suc 1) ?s = (((3/2, - (9/8)), (1, 0)), [])"
    by (simp_all add: draws_example)
  have u: "any_entry (eigValsEvaluated (fst (?D ?s)))"
    by (simp add: d1 any_entry_def eigValsEvaluated_def torch_eig_a)
  have p: "\<not> any_entry (eigValsEvaluated ((3/2, - (9/8)), (1, 0)))"
    by (simp add: any_entry_def eigValsEvaluated_def torch_eig_b)
  have "\<exists>n. (((3/2, - (9/8)), (1, 0)), []) = (?D ^^ Suc n) (((1, 0), (1, 0)), if (- 1 :: int) > 0 then manual_seed list_torch (- 1) else [2, 23/80, 1, - (61/40)]) \<and>
           \<not> any_entry (eigValsEvaluated (fst ((((3/2, - (9/8)), (1, 0)), []) :: rmat2 \<times> real list))) \<and>
           (\<forall>k<n. any_entry (eigValsEvaluated (fst ((?D ^^ Suc k)
                  (((1, 0), (1, 0)), if (- 1 :: int) > 0 then manual_seed list_torch (- 1) else [2, 23/80, 1, - (61/40)])))))"
    using d2 u p by (intro exI [of _ 1]) simp
  then have "ARCoeffecientGeneration list_torch (1/2, 2/5) 1 (- 1) [2, 23/80, 1, - (61/40)]
     = Some (((3/2, - (9/8)), (1, 0)), [])"
    using ARCoeffecientGeneration_returns_first_pass
      [where rng = list_torch and arCoeffMeans = "(1/2, 2/5)" and var = 1 and seed = "- 1"
         and g = "[2, 23/80, 1, - (61/40)]" and r = "(((3/2, - (9/8)), (1, 0)), [])"]
    by blast
  then show ?thesis using u p by simp
qed

text \<open>
  Claim C5. The test compares the real part and the imaginary part of each eigenvalue
  with 1 separately, not the magnitude. With the means \<open>(3/2, -9/8)\<close> and noise variance
  \<open>0\<close> the first round draws \<open>[[3/2, -9/8], [1, 0]]\<close>, whose eigenvalues are
  \<open>3/4 \<plusminus> 3/4 j\<close>: both parts are below 1, the matrix is returned, and the
  magnitude of both eigenvalues is \<open>sqrt (9/8) > 1\<close>.
\<close>

theorem ARCoeffecientGeneration_accepts_unstable:
  "ARCoeffecientGeneration list_torch (3/2, - (9/8)) 0 (- 1) [] = Some (((3/2, - (9/8)), (1, 0)), []) \<and>
   torch_eig ((3/2, - (9/8)), (1, 0)) = [(3/4, 3/4), (3/4, - (3/4))] \<and>
   eig_magnitudes ((3/2, - (9/8)), (1, 0)) = [sqrt (9/8), sqrt (9/8)] \<and>
   1 < sqrt (9/8)"
proof -
  have d: "coeff_draw list_torch (3/2, - (9/8)) 0 (((1, 0), (1, 0)), []) = (((3/2, - (9/8)), (1, 0)), [])"
    by (simp add: coeff_draw_def list_torch_def Let_def)
  have p: "\<not> any_entry (eigValsEvaluated ((3/2, - (9/8)), (1, 0)))"
    by (simp add: any_entry_def eigValsEvaluated_def torch_eig_b)
  have "ARCoeffecientGeneration list_torch (3/2, - (9/8)) 0 (- 1) [] = Some (((3/2, - (9/8)), (1, 0)), [])"
    unfolding ARCoeffecientGeneration_def Let_def
    by (subst coeff_loop.simps) (simp add: d p Let_def)
  moreover have "eig_magnitudes ((3/2, - (9/8)), (1, 0)) = [sqrt (9/8), sqrt (9/8)]"
    by (simp add: eig_magnitudes_def torch_eig_b)
  moreover have "1 < sqrt (9/8)"
    by (rule real_less_rsqrt) simp
  ultimately show ?thesis using torch_eig_b by simp
qed

section \<open>The state at step 0\<close>

subsection \<open>The two files of GilEllDataGen\<close>











subsection \<open>ARDatagenMismatch\<close>








subsection \<open>The three generators together\<close>









section \<open>Properties of convertToBatched\<close>

subsection \<open>Arrays given by their entries\<close>

lemma map2_tab:
  "map2 f (map g [0..<n]) (map h [0..<n]) = map (\<lambda>k. f (g k) (h k)) [0..<n]"
  by (simp add: zip_map_map zip_same_conv_map)

lemma update_tab:
  "i < n \<Longrightarrow> (map g [0..<n])[i := v] = map (\<lambda>k. if k = i then v else g k) [0..<n]"
  by (rule nth_equalityI) (auto simp: nth_list_update)

lemma transpose_tab:
  assumes "0 < n"
  shows "transpose (map (\<lambda>i. map (f i) [0..<m]) [0..<n]) = map (\<lambda>j. map (\<lambda>i. f i j) [0..<n]) [0..<m]"
proof -
  let ?xs = "map (\<lambda>i. map (f i) [0..<m]) [0..<n]"
  have "transpose ?xs = map (\<lambda>i. map (\<lambda>j. ?xs ! j ! i) [0..<length ?xs]) [0..<m]"
    by (rule transpose_rectangle) (use assms in auto)
  also have "\<dots> = map (\<lambda>j. map (\<lambda>i. f i j) [0..<n]) [0..<m]"
    by (auto intro!: nth_equalityI)
  finally show ?thesis .
qed

lemma slice_tab:
  assumes "length row = N" "(i + 1) * bs \<le> N"
  shows "py_slice row (int (i * bs)) (int ((i + 1) * bs)) = map (\<lambda>b. row ! (i * bs + b)) [0..<bs]"
proof (rule nth_equalityI)
  have r: "(0::int) \<le> int (i * bs)" "int (i * bs) \<le> int ((i + 1) * bs)"
    "int ((i + 1) * bs) \<le> int (length row)"
    using assms by (simp_all only: of_nat_le_iff of_nat_0_le_iff) simp_all
  have l: "nat (int ((i + 1) * bs) - int (i * bs)) = bs"
    by (simp add: algebra_simps)
  show "length (py_slice row (int (i * bs)) (int ((i + 1) * bs))) = length (map (\<lambda>b. row ! (i * bs + b)) [0..<bs])"
    using length_py_slice_in_range [OF r] l by simp
  fix k assume "k < length (py_slice row (int (i * bs)) (int ((i + 1) * bs)))"
  then have k: "k < bs" using length_py_slice_in_range [OF r] l by simp
  then have "k < nat (int ((i + 1) * bs) - int (i * bs))" using l by simp
  from nth_py_slice_in_range [OF r this] k
  show "py_slice row (int (i * bs)) (int ((i + 1) * bs)) ! k = map (\<lambda>b. row ! (i * bs + b)) [0..<bs] ! k"
    by (simp add: nat_mult_distrib)
qed

lemma list_tab: "length xs = n \<Longrightarrow> xs = map (\<lambda>k. xs ! k) [0..<n]"
  by (auto intro!: nth_equalityI)

lemma mapE_id: "(\<And>v. v \<in> set vs \<Longrightarrow> f v = Inr v) \<Longrightarrow> mapE f vs = Inr vs"
  by (induction vs) simp_all

lemma np_assign2_tab:
  "np_assign2 r c (map (\<lambda>b. map (g b) [0..<c]) [0..<r]) = Inr (map (\<lambda>b. map (g b) [0..<c]) [0..<r])"
proof -
  have "mapE (np_assign c) (map (\<lambda>b. map (g b) [0..<c]) [0..<r]) = Inr (map (\<lambda>b. map (g b) [0..<c]) [0..<r])"
    by (rule mapE_id) (auto simp: np_assign_def)
  then show ?thesis by (simp add: np_assign2_def thenE_def np_assign_def)
qed

lemma np_assign3_tab:
  "np_assign3 r c d (map (\<lambda>b. map (\<lambda>k. map (g b k) [0..<d]) [0..<c]) [0..<r])
     = Inr (map (\<lambda>b. map (\<lambda>k. map (g b k) [0..<d]) [0..<c]) [0..<r])"
proof -
  have "mapE (np_assign2 c d) (map (\<lambda>b. map (\<lambda>k. map (g b k) [0..<d]) [0..<c]) [0..<r])
          = Inr (map (\<lambda>b. map (\<lambda>k. map (g b k) [0..<d]) [0..<c]) [0..<r])"
    by (rule mapE_id) (auto simp: np_assign2_tab)
  then show ?thesis by (simp add: np_assign3_def thenE_def np_assign_def)
qed

subsection \<open>The two values assigned in one iteration\<close>

lemma slab_bound: "i < N div bs \<Longrightarrow> (i + 1) * bs \<le> (N::nat)"
proof -
  assume "i < N div bs"
  then have "Suc i \<le> N div bs" by simp
  then have "Suc i * bs \<le> (N div bs) * bs" by (rule mult_le_mono1)
  also have "\<dots> \<le> N" by simp
  finally show ?thesis by simp
qed

lemma slab_sys:
  assumes sh: "well_shaped sys obs seqLength N" and i: "i < N div bs"
  shows "transpose (map (\<lambda>row. py_slice row (int (i * bs)) (int ((i + 1) * bs))) sys)
           = map (\<lambda>b. map (\<lambda>c. sys ! c ! (i * bs + b)) [0..<4]) [0..<bs]"
proof -
  have l: "length sys = 4" and r: "\<And>c. c < 4 \<Longrightarrow> length (sys ! c) = N"
    using sh by (auto simp: well_shaped_def)
  have "map (\<lambda>row. py_slice row (int (i * bs)) (int ((i + 1) * bs))) sys
          = map (\<lambda>c. py_slice (sys ! c) (int (i * bs)) (int ((i + 1) * bs))) [0..<4]"
    using l by (auto intro!: nth_equalityI)
  also have "\<dots> = map (\<lambda>c. map (\<lambda>b. sys ! c ! (i * bs + b)) [0..<bs]) [0..<4]"
  proof (rule map_cong [OF refl])
    fix c assume "c \<in> set [0..<4::nat]"
    then have "length (sys ! c) = N" using r by simp
    from slice_tab [OF this slab_bound [OF i]]
    show "py_slice (sys ! c) (int (i * bs)) (int ((i + 1) * bs)) = map (\<lambda>b. sys ! c ! (i * bs + b)) [0..<bs]" .
  qed
  finally have "map (\<lambda>row. py_slice row (int (i * bs)) (int ((i + 1) * bs))) sys
     = map (\<lambda>c. map (\<lambda>b. sys ! c ! (i * bs + b)) [0..<bs]) [0..<4]" .
  moreover have "transpose (map (\<lambda>c. map (\<lambda>b. sys ! c ! (i * bs + b)) [0..<bs]) [0..<4])
     = map (\<lambda>b. map (\<lambda>c. sys ! c ! (i * bs + b)) [0..<4]) [0..<bs]"
    by (rule transpose_tab) simp
  ultimately show ?thesis by (simp only:)
qed

lemma slab_obs:
  assumes sh: "well_shaped sys obs seqLength N" and i: "i < N div bs" and s: "0 < seqLength"
  shows "swapaxes_1_2 (np_transpose3
           (map (map (\<lambda>row. py_slice row (int (i * bs)) (int ((1 + i) * bs)))) obs))
           = map (\<lambda>b. map (\<lambda>c. map (\<lambda>t. obs ! c ! t ! (i * bs + b)) [0..<seqLength]) [0..<2]) [0..<bs]"
proof -
  have l: "length obs = 2" using sh by (simp add: well_shaped_def)
  have pr: "length (obs ! c) = seqLength \<and> (\<forall>r \<in> set (obs ! c). length r = N)" if "c < 2" for c
  proof -
    from that l have "obs ! c \<in> set obs" by simp
    with sh show ?thesis by (simp add: well_shaped_def)
  qed
  have p: "\<And>c. c < 2 \<Longrightarrow> length (obs ! c) = seqLength" using pr by blast
  have r: "length (obs ! c ! t) = N" if "c < 2" "t < seqLength" for c t
  proof -
    from that pr [of c] have "obs ! c ! t \<in> set (obs ! c)" by simp
    with pr [OF that(1)] show ?thesis by blast
  qed
  have "map (map (\<lambda>row. py_slice row (int (i * bs)) (int ((1 + i) * bs)))) obs
          = map (\<lambda>c. map (\<lambda>t. py_slice (obs ! c ! t) (int (i * bs)) (int ((i + 1) * bs))) [0..<seqLength]) [0..<2]"
    using l p by (auto intro!: nth_equalityI simp: add.commute)
  also have "\<dots> = map (\<lambda>c. map (\<lambda>t. map (\<lambda>b. obs ! c ! t ! (i * bs + b)) [0..<bs]) [0..<seqLength]) [0..<2]"
  proof (rule map_cong [OF refl], rule map_cong [OF refl])
    fix c t assume "c \<in> set [0..<2::nat]" "t \<in> set [0..<seqLength]"
    then have "length (obs ! c ! t) = N" using r by simp
    from slice_tab [OF this slab_bound [OF i]]
    show "py_slice (obs ! c ! t) (int (i * bs)) (int ((i + 1) * bs))
            = map (\<lambda>b. obs ! c ! t ! (i * bs + b)) [0..<bs]" .
  qed
  finally have X: "map (map (\<lambda>row. py_slice row (int (i * bs)) (int ((1 + i) * bs)))) obs
     = map (\<lambda>c. map (\<lambda>t. map (\<lambda>b. obs ! c ! t ! (i * bs + b)) [0..<bs]) [0..<seqLength]) [0..<2]" .
  have t2: "\<And>f m. transpose (map (\<lambda>i. map (f i) [0..<m]) [0..<2]) = map (\<lambda>j. map (\<lambda>i. f i j) [0..<2]) [0..<m]"
    by (rule transpose_tab) simp
  have ts: "\<And>f m. transpose (map (\<lambda>i. map (f i) [0..<m]) [0..<seqLength])
                 = map (\<lambda>j. map (\<lambda>i. f i j) [0..<seqLength]) [0..<m]"
    by (rule transpose_tab) (rule s)
  show ?thesis
    unfolding swapaxes_1_2_def np_transpose3_def X
    by (simp only: t2 ts map_map o_def)
qed

subsection \<open>The loop\<close>

lemma set_last3_tab:
  assumes "i < n"
  shows "set_last3 (map (\<lambda>b. map (\<lambda>c. map (g b c) [0..<n]) [0..<m]) [0..<r]) i
                   (map (\<lambda>b. map (\<lambda>c. h b c) [0..<m]) [0..<r])
           = map (\<lambda>b. map (\<lambda>c. map (\<lambda>k. if k = i then h b c else g b c k) [0..<n]) [0..<m]) [0..<r]"
  unfolding set_last3_def
  by (simp only: map2_tab update_tab [OF assms])

lemma set_last4_tab:
  assumes "i < n"
  shows "set_last4 (map (\<lambda>b. map (\<lambda>c. map (\<lambda>t. map (g b c t) [0..<n]) [0..<d]) [0..<m]) [0..<r]) i
                   (map (\<lambda>b. map (\<lambda>c. map (\<lambda>t. h b c t) [0..<d]) [0..<m]) [0..<r])
           = map (\<lambda>b. map (\<lambda>c. map (\<lambda>t. map (\<lambda>k. if k = i then h b c t else g b c t k) [0..<n])
                   [0..<d]) [0..<m]) [0..<r]"
  unfolding set_last4_def
  by (simp only: map2_tab set_last3_tab [OF assms])

lemma loopE_append: "loopE body (js @ ks) s = thenE (loopE body js s) (loopE body ks)"
  by (induction js arbitrary: s) (simp_all add: thenE_def split: sum.splits)

lemma batch_step_tab:
  assumes sh: "well_shaped sys obs seqLength N" and i: "i < N div bs" and s: "0 < seqLength"
  shows "batch_step sys obs bs seqLength i
           (map (\<lambda>b. map (\<lambda>c. map (\<lambda>k. if k < i then sys ! c ! (k * bs + b) else junk)
                  [0..<N div bs]) [0..<4]) [0..<bs],
            map (\<lambda>b. map (\<lambda>c. map (\<lambda>t. map (\<lambda>k. if k < i then obs ! c ! t ! (k * bs + b) else junk)
                  [0..<N div bs]) [0..<seqLength]) [0..<2]) [0..<bs])
         = Inr (map (\<lambda>b. map (\<lambda>c. map (\<lambda>k. if k < Suc i then sys ! c ! (k * bs + b) else junk)
                  [0..<N div bs]) [0..<4]) [0..<bs],
                map (\<lambda>b. map (\<lambda>c. map (\<lambda>t. map (\<lambda>k. if k < Suc i then obs ! c ! t ! (k * bs + b) else junk)
                  [0..<N div bs]) [0..<seqLength]) [0..<2]) [0..<bs])"
proof -
  have e: "(\<lambda>k. if k = i then (v :: real) else if k < i then w k else junk)
             = (\<lambda>k. if k < Suc i then (if k = i then v else w k) else junk)" for v w
    by (rule ext) auto
  have f3: "map (\<lambda>k. if k < Suc i then (if k = i then sys ! c ! (i * bs + b) else sys ! c ! (k * bs + b)) else junk) [0..<N div bs]
          = map (\<lambda>k. if k < Suc i then sys ! c ! (k * bs + b) else junk) [0..<N div bs]" for b c
    by (rule map_cong [OF refl]) auto
  have f4: "map (\<lambda>k. if k < Suc i then (if k = i then obs ! c ! t ! (i * bs + b) else obs ! c ! t ! (k * bs + b)) else junk) [0..<N div bs]
          = map (\<lambda>k. if k < Suc i then obs ! c ! t ! (k * bs + b) else junk) [0..<N div bs]" for b c t
    by (rule map_cong [OF refl]) auto
  show ?thesis
    unfolding batch_step_def
    by (simp only: slab_sys [OF sh i] slab_obs [OF sh i s] np_assign2_tab np_assign3_tab
        thenE_def sum.case fst_conv snd_conv set_last3_tab [OF i] set_last4_tab [OF i] e f3 f4)
qed

lemma batch_loop_tab:
  assumes sh: "well_shaped sys obs seqLength N" and s: "0 < seqLength" and k: "k \<le> N div bs"
  shows "loopE (batch_step sys obs bs seqLength) [0..<k]
           (map (\<lambda>b. map (\<lambda>c. map (\<lambda>k. if k < 0 then sys ! c ! (k * bs + b) else junk)
                  [0..<N div bs]) [0..<4]) [0..<bs],
            map (\<lambda>b. map (\<lambda>c. map (\<lambda>t. map (\<lambda>k. if k < 0 then obs ! c ! t ! (k * bs + b) else junk)
                  [0..<N div bs]) [0..<seqLength]) [0..<2]) [0..<bs])
         = Inr (map (\<lambda>b. map (\<lambda>c. map (\<lambda>j. if j < k then sys ! c ! (j * bs + b) else junk)
                  [0..<N div bs]) [0..<4]) [0..<bs],
                map (\<lambda>b. map (\<lambda>c. map (\<lambda>t. map (\<lambda>j. if j < k then obs ! c ! t ! (j * bs + b) else junk)
                  [0..<N div bs]) [0..<seqLength]) [0..<2]) [0..<bs])"
  using k
proof (induction k)
  case 0
  show ?case by simp
next
  case (Suc k)
  then have k: "k < N div bs" and IH: "loopE (batch_step sys obs bs seqLength) [0..<k]
           (map (\<lambda>b. map (\<lambda>c. map (\<lambda>k. if k < 0 then sys ! c ! (k * bs + b) else junk)
                  [0..<N div bs]) [0..<4]) [0..<bs],
            map (\<lambda>b. map (\<lambda>c. map (\<lambda>t. map (\<lambda>k. if k < 0 then obs ! c ! t ! (k * bs + b) else junk)
                  [0..<N div bs]) [0..<seqLength]) [0..<2]) [0..<bs])
         = Inr (map (\<lambda>b. map (\<lambda>c. map (\<lambda>j. if j < k then sys ! c ! (j * bs + b) else junk)
                  [0..<N div bs]) [0..<4]) [0..<bs],
                map (\<lambda>b. map (\<lambda>c. map (\<lambda>t. map (\<lambda>j. if j < k then obs ! c ! t ! (j * bs + b) else junk)
                  [0..<N div bs]) [0..<seqLength]) [0..<2]) [0..<bs])"
    by simp_all
  have "[0..<Suc k] = [0..<k] @ [k]" by simp
  then show ?case
    by (simp only: loopE_append IH thenE_def sum.case loopE.simps batch_step_tab [OF sh k s])
qed

lemma dims_well_shaped:
  assumes sh: "well_shaped sys obs seqLength N" and s: "0 < seqLength"
  shows "dim1 obs = seqLength \<and> dim2 obs = N"
proof -
  from sh obtain p0 p1 where obs: "obs = [p0, p1]"
    by (auto simp: well_shaped_def length_Suc_conv numeral_2_eq_2)
  with sh have p0: "length p0 = seqLength" "\<forall>r \<in> set p0. length r = N"
    by (auto simp: well_shaped_def)
  with s obtain r0 rs where "p0 = r0 # rs" by (cases p0) auto
  with p0 obs show ?thesis by (auto simp: dim1_def dim2_def)
qed

lemma replicate_tab: "replicate n v = map (\<lambda>k. v) [0..<n]"
  by (simp add: map_replicate_const)

text \<open>
  For inputs of the documented shapes and a positive batch size the function returns,
  whatever \<open>np.empty\<close> left in the arrays, the arrays with
  \<open>trueState[b, c, i] = system[c, i * batchSize + b]\<close> and
  \<open>measuredState[b, c, t, i] = observed[c, t, i * batchSize + b]\<close>.
\<close>

lemma convertToBatched_closed_form:
  assumes sh: "well_shaped sys obs seqLength N" and s: "0 < seqLength" and b: "0 < batchSize"
  shows "convertToBatched junk sys obs batchSize
         = Inr (map (\<lambda>b. map (\<lambda>c. map (\<lambda>i. sys ! c ! (i * nat batchSize + b))
                  [0..<N div nat batchSize]) [0..<4]) [0..<nat batchSize],
                map (\<lambda>b. map (\<lambda>c. map (\<lambda>t. map (\<lambda>i. obs ! c ! t ! (i * nat batchSize + b))
                  [0..<N div nat batchSize]) [0..<seqLength]) [0..<2]) [0..<nat batchSize])"
proof -
  let ?bs = "nat batchSize"
  have init: "np_empty3 junk ?bs 4 (N div ?bs)
        = map (\<lambda>b. map (\<lambda>c. map (\<lambda>k. if k < 0 then sys ! c ! (k * ?bs + b) else junk)
                  [0..<N div ?bs]) [0..<4]) [0..<?bs]"
    "np_empty4 junk ?bs 2 seqLength (N div ?bs)
        = map (\<lambda>b. map (\<lambda>c. map (\<lambda>t. map (\<lambda>k. if k < 0 then obs ! c ! t ! (k * ?bs + b) else junk)
                  [0..<N div ?bs]) [0..<seqLength]) [0..<2]) [0..<?bs]"
    by (simp_all add: np_empty3_def np_empty4_def replicate_tab)
  have fin3: "map (\<lambda>j. if j < N div ?bs then sys ! c ! (j * ?bs + b) else junk) [0..<N div ?bs]
            = map (\<lambda>i. sys ! c ! (i * ?bs + b)) [0..<N div ?bs]" for b c
    by (rule map_cong [OF refl]) simp
  have fin4: "map (\<lambda>j. if j < N div ?bs then obs ! c ! t ! (j * ?bs + b) else junk) [0..<N div ?bs]
            = map (\<lambda>i. obs ! c ! t ! (i * ?bs + b)) [0..<N div ?bs]" for b c t
    by (rule map_cong [OF refl]) simp
  have "convertToBatched junk sys obs batchSize
        = loopE (batch_step sys obs ?bs seqLength) [0..<N div ?bs]
            (np_empty3 junk ?bs 4 (N div ?bs), np_empty4 junk ?bs 2 seqLength (N div ?bs))"
    using b dims_well_shaped [OF sh s] by (simp add: convertToBatched_def Let_def)
  also have "\<dots> = Inr (map (\<lambda>b. map (\<lambda>c. map (\<lambda>j. if j < N div ?bs then sys ! c ! (j * ?bs + b) else junk)
                  [0..<N div ?bs]) [0..<4]) [0..<?bs],
                map (\<lambda>b. map (\<lambda>c. map (\<lambda>t. map (\<lambda>j. if j < N div ?bs then obs ! c ! t ! (j * ?bs + b) else junk)
                  [0..<N div ?bs]) [0..<seqLength]) [0..<2]) [0..<?bs])"
    unfolding init by (rule batch_loop_tab [OF sh s order_refl])
  finally show ?thesis by (simp only: fin3 fin4)
qed

subsection \<open>The mapping of samples to batches\<close>

text \<open>
  Claim C8. For a \<open>4 \<times> N\<close> array of true states and a \<open>2 \<times> seqLength \<times> N\<close> array of
  observations with \<open>N mod batchSize = 0\<close>, \<open>convertToBatched\<close> returns two arrays in which
  batch \<open>i\<close>, element \<open>b\<close> holds the sample \<open>i * batchSize + b\<close> of the input. Every
  sample \<open>n < N\<close> is therefore found at batch \<open>n div batchSize\<close>, element
  \<open>n mod batchSize\<close>, so reading the batches in order gives the samples in their original
  order. The result is the same for every content of the freshly allocated arrays: it
  is a function of the inputs alone.
\<close>

theorem convertToBatched_mapping:
  assumes sh: "well_shaped sys obs seqLength N" and s: "0 < seqLength" and b: "0 < batchSize"
    and d: "N mod nat batchSize = 0"
  shows "\<exists>T M. convertToBatched junk sys obs batchSize = Inr (T, M) \<and>
     (\<forall>b < nat batchSize. \<forall>c < 4. \<forall>i < N div nat batchSize.
        T ! b ! c ! i = sys ! c ! (i * nat batchSize + b)) \<and>
     (\<forall>b < nat batchSize. \<forall>c < 2. \<forall>t < seqLength. \<forall>i < N div nat batchSize.
        M ! b ! c ! t ! i = obs ! c ! t ! (i * nat batchSize + b)) \<and>
     (\<forall>n < N. \<forall>c < 4. T ! (n mod nat batchSize) ! c ! (n div nat batchSize) = sys ! c ! n) \<and>
     (\<forall>n < N. \<forall>c < 2. \<forall>t < seqLength.
        M ! (n mod nat batchSize) ! c ! t ! (n div nat batchSize) = obs ! c ! t ! n) \<and>
     convertToBatched junk' sys obs batchSize = Inr (T, M)"
proof -
  let ?bs = "nat batchSize"
  let ?T = "map (\<lambda>b. map (\<lambda>c. map (\<lambda>i. sys ! c ! (i * ?bs + b)) [0..<N div ?bs]) [0..<4]) [0..<?bs]"
  let ?M = "map (\<lambda>b. map (\<lambda>c. map (\<lambda>t. map (\<lambda>i. obs ! c ! t ! (i * ?bs + b))
                  [0..<N div ?bs]) [0..<seqLength]) [0..<2]) [0..<?bs]"
  have bs: "0 < ?bs" using b by simp
  have c1: "convertToBatched junk sys obs batchSize = Inr (?T, ?M)"
    and c2: "convertToBatched junk' sys obs batchSize = Inr (?T, ?M)"
    by (rule convertToBatched_closed_form [OF sh s b])+
  have t: "?T ! b ! c ! i = sys ! c ! (i * ?bs + b)" if "b < ?bs" "c < 4" "i < N div ?bs" for b c i
    using that by simp
  have m: "?M ! b ! c ! t ! i = obs ! c ! t ! (i * ?bs + b)"
    if "b < ?bs" "c < 2" "t < seqLength" "i < N div ?bs" for b c t i
    using that by simp
  have idx: "n mod ?bs < ?bs \<and> n div ?bs < N div ?bs \<and> (n div ?bs) * ?bs + n mod ?bs = n"
    if "n < N" for n
  proof -
    have "N = (N div ?bs) * ?bs" using d by (metis add.right_neutral div_mult_mod_eq)
    with that have "n < (N div ?bs) * ?bs" by simp
    then have "n div ?bs < N div ?bs" by (rule less_mult_imp_div_less)
    with bs show ?thesis by simp
  qed
  have t': "?T ! (n mod ?bs) ! c ! (n div ?bs) = sys ! c ! n" if "n < N" "c < 4" for n c
    using t [of "n mod ?bs" c "n div ?bs"] idx [OF that(1)] that(2) by simp
  have m': "?M ! (n mod ?bs) ! c ! t ! (n div ?bs) = obs ! c ! t ! n"
    if "n < N" "c < 2" "t < seqLength" for n c t
    using m [of "n mod ?bs" c t "n div ?bs"] idx [OF that(1)] that(2,3) by simp
  show ?thesis
    using c1 c2 t m t' m' by (intro exI [of _ ?T] exI [of _ ?M]) blast
qed

subsection \<open>An example\<close>

lemma well_shaped_example:
  "well_shaped [[1, 2, 3, 4], [5, 6, 7, 8], [9, 10, 11, 12], [13, 14, 15, 16]]
               [[[21, 22, 23, 24]], [[25, 26, 27, 28]]] 1 4"
  by (simp add: well_shaped_def)

lemma convertToBatched_example:
  "convertToBatched junk [[1, 2, 3, 4], [5, 6, 7, 8], [9, 10, 11, 12], [13, 14, 15, 16]]
               [[[21, 22, 23, 24]], [[25, 26, 27, 28]]] 2
     = Inr ([[[1, 3], [5, 7], [9, 11], [13, 15]], [[2, 4], [6, 8], [10, 12], [14, 16]]],
            [[[[21, 23]], [[25, 27]]], [[[22, 24]], [[26, 28]]]])"
proof -
  have u: "[0..<4] = [0, 1, 2, 3::nat]" "[0..<2] = [0, 1::nat]" "[0..<1] = [0::nat]"
    by (simp_all add: upt_conv_Cons)
  have n: "nat 2 = 2" "(4::nat) div 2 = 2" by simp_all
  have "convertToBatched junk [[1, 2, 3, 4], [5, 6, 7, 8], [9, 10, 11, 12], [13, 14, 15, 16]]
               [[[21, 22, 23, 24]], [[25, 26, 27, 28]]] 2
     = Inr (map (\<lambda>b. map (\<lambda>c. map (\<lambda>i. [[1, 2, 3, 4], [5, 6, 7, 8], [9, 10, 11, 12], [13, 14, 15, 16]] ! c ! (i * nat 2 + b))
                  [0..<4 div nat 2]) [0..<4]) [0..<nat 2],
            map (\<lambda>b. map (\<lambda>c. map (\<lambda>t. map (\<lambda>i. [[[21, 22, 23, 24]], [[25, 26, 27, 28]]] ! c ! t ! (i * nat 2 + b))
                  [0..<4 div nat 2]) [0..<1]) [0..<2]) [0..<nat 2])"
    by (rule convertToBatched_closed_form [OF well_shaped_example]) simp_all
  also have "\<dots> = Inr ([[[1, 3], [5, 7], [9, 11], [13, 15]], [[2, 4], [6, 8], [10, 12], [14, 16]]],
            [[[[21, 23]], [[25, 27]]], [[[22, 24]], [[26, 28]]]])"
    unfolding n u by simp
  finally show ?thesis .
qed


theorem convertToBatched_mapping_witness:
  "well_shaped [[1, 2, 3, 4], [5, 6, 7, 8], [9, 10, 11, 12], [13, 14, 15, 16]] [[[21, 22, 23, 24]], [[25, 26, 27, 28]]] 1 4 \<and>
   (0::nat) < 1 \<and> (0::int) < 2 \<and> (4::nat) mod nat 2 = 0 \<and>
   (\<exists>T M. convertToBatched 0 [[1, 2, 3, 4], [5, 6, 7, 8], [9, 10, 11, 12], [13, 14, 15, 16]] [[[21, 22, 23, 24]], [[25, 26, 27, 28]]] 2 = Inr (T, M) \<and>
     (\<forall>b < nat 2. \<forall>c < 4. \<forall>i < 4 div nat 2. T ! b ! c ! i = [[1, 2, 3, 4], [5, 6, 7, 8], [9, 10, 11, 12], [13, 14, 15, 16]] ! c ! (i * nat 2 + b)) \<and>
     (\<forall>b < nat 2. \<forall>c < 2. \<forall>t < 1. \<forall>i < 4 div nat 2.
        M ! b ! c ! t ! i = [[[21, 22, 23, 24]], [[25, 26, 27, 28]]] ! c ! t ! (i * nat 2 + b)) \<and>
     (\<forall>n < 4. \<forall>c < 4. T ! (n mod nat 2) ! c ! (n div nat 2) = [[1, 2, 3, 4], [5, 6, 7, 8], [9, 10, 11, 12], [13, 14, 15, 16]] ! c ! n) \<and>
     (\<forall>n < 4. \<forall>c < 2. \<forall>t < 1. M ! (n mod nat 2) ! c ! t ! (n div nat 2) = [[[21, 22, 23, 24]], [[25, 26, 27, 28]]] ! c ! t ! n) \<and>
     convertToBatched 1 [[1, 2, 3, 4], [5, 6, 7, 8], [9, 10, 11, 12], [13, 14, 15, 16]] [[[21, 22, 23, 24]], [[25, 26, 27, 28]]] 2 = Inr (T, M))"
proof -
  have h: "(0::nat) < 1" "(0::int) < 2" "(4::nat) mod nat 2 = 0" by simp_all
  note w = convertToBatched_mapping [OF well_shaped_example h, of 0 1]
  show ?thesis
    by (intro conjI) (rule well_shaped_example h w)+
qed


end
